theory Spec2Isabelle
  imports
    Complex_Main
    "HOL-Library.Char_ord"
    "HOL-Library.List_Lexorder"
    "HOL-Library.Product_Lexorder"
begin

section \<open>Shared column layout\<close>

text \<open>
  The six key columns that every table of the pipeline carries. Tables are lists of
  records, one record per DataFrame row; the records of the later stages extend this one,
  so the column selectors keep the source's names at every stage.
\<close>

record keyed =
  year :: int
  month :: int
  week_month :: int
  product_name :: string
  product_uom :: string
  sales_type :: string

section \<open>Timestamps\<close>

text \<open>
  A normalised timestamp (midnight), held as the calendar fields that \<open>.dt.day\<close>,
  \<open>.year\<close> and \<open>.month\<close> read. Day arithmetic goes through the proleptic
  Gregorian ordinal, as Python's datetime does it.
\<close>

record timestamp =
  ts_year :: int
  ts_month :: int
  ts_day :: int

definition is_leap :: "int \<Rightarrow> bool" where
  "is_leap yr = (yr mod 4 = 0 \<and> (yr mod 100 \<noteq> 0 \<or> yr mod 400 = 0))"

definition days_in_month :: "int \<Rightarrow> int \<Rightarrow> int" where
  "days_in_month yr m =
     (if m = 2 then (if is_leap yr then 29 else 28)
      else if m = 4 \<or> m = 6 \<or> m = 9 \<or> m = 11 then 30 else 31)"

definition days_before_year :: "int \<Rightarrow> int" where
  "days_before_year yr =
     (yr - 1) * 365 + (yr - 1) div 4 - (yr - 1) div 100 + (yr - 1) div 400"

definition days_before_month :: "int \<Rightarrow> int \<Rightarrow> int" where
  "days_before_month yr m =
     (if m = 1 then 0 else if m = 2 then 31
      else (if is_leap yr then 1 else 0) +
        (if m = 3 then 59 else if m = 4 then 90 else if m = 5 then 120
         else if m = 6 then 151 else if m = 7 then 181 else if m = 8 then 212
         else if m = 9 then 243 else if m = 10 then 273 else if m = 11 then 304
         else 334))"

definition ordinal :: "timestamp \<Rightarrow> int" where
  "ordinal t = days_before_year (ts_year t) + days_before_month (ts_year t) (ts_month t) + ts_day t"



text \<open>A timestamp whose fields name a day of the calendar.\<close>

definition calendar_date :: "timestamp \<Rightarrow> bool" where
  "calendar_date t =
     (1 \<le> ts_month t \<and> ts_month t \<le> 12 \<and> 1 \<le> ts_day t
      \<and> ts_day t \<le> days_in_month (ts_year t) (ts_month t))"

definition next_day :: "timestamp \<Rightarrow> timestamp" where
  "next_day t =
     (if ts_day t < days_in_month (ts_year t) (ts_month t) then t\<lparr>ts_day := ts_day t + 1\<rparr>
      else if ts_month t < 12 then t\<lparr>ts_month := ts_month t + 1, ts_day := 1\<rparr>
      else \<lparr>ts_year = ts_year t + 1, ts_month = 1, ts_day = 1\<rparr>)"

text \<open>\<open>t + pd.Timedelta(days=n)\<close> for a non-negative number of days.\<close>

primrec add_days :: "nat \<Rightarrow> timestamp \<Rightarrow> timestamp" where
  "add_days 0 t = t"
| "add_days (Suc n) t = add_days n (next_day t)"

text \<open>Python's \<open>weekday()\<close>: Monday is 0, Sunday is 6.\<close>

definition weekday :: "timestamp \<Rightarrow> int" where
  "weekday t = (ordinal t + 6) mod 7"

section \<open>Calendar mapper (utils/date_utils.py)\<close>






text \<open>\<open>((dates.dt.day - 1) // 7 + 1).clip(upper=4)\<close>, over a sequence of dates.\<close>

definition week_month_from_date :: "timestamp list \<Rightarrow> int list" where
  "week_month_from_date dates = map (\<lambda>t. min 4 ((ts_day t - 1) div 7 + 1)) dates"

section \<open>Weekly aggregator (data/preprocessing.py)\<close>

text \<open>
  A raw transaction row. A quantity cell is \<open>None\<close> where the CSV holds NaN. The column
  \<open>row_qty\<close> is the raw table's \<open>qty_for_forecast\<close> column, which
  \<open>build_weekly_timeseries\<close> assigns on its copy (\<open>None\<close> before that, or NaN).
\<close>

record txn = keyed +
  total_qty_invoiced :: "real option"
  total_qty_delivered :: "real option"
  row_qty :: "real option"

text \<open>A row of the weekly table: the six key columns and the summed quantity.\<close>

record weekly = keyed +
  qty_for_forecast :: real

definition ATTRIBUTE_ONLY_PRODUCTS :: "string list" where
  "ATTRIBUTE_ONLY_PRODUCTS =
    [''blend'', ''blend crayfish'', ''blend egusi'', ''blend ogbono'', ''chop cabbage'',
     ''chop carrot'', ''chop spring onions'', ''chop waterleaf'', ''chopped'', ''clean'',
     ''clean beans'', ''cleaned and dressed'', ''cut'', ''cut (4 pieces)'', ''cut (6 pieces)'',
     ''cut (big size)'', ''cut (medium size)'', ''cut (nkwobi size)'', ''cut (small size)'',
     ''cut protein'', ''cut vegetable'', ''descale'', ''descale and cut'', ''deseed tatase'',
     ''deseeding'', ''diced'', ''grated'', ''green only'', ''grind'', ''grind crayfish'',
     ''juiced'', ''packaging'', ''peeled'', ''peeled & cut'', ''peeled & pressed'', ''pick'',
     ''pluck'', ''prep rodo'', ''prep sombo'', ''prepping'', ''processed and cut'',
     ''processed only'', ''red only'', ''ripe'', ''roasted & cut (big size)'',
     ''roasted & cut (medium size)'', ''roasted & cut (small size)'',
     ''scraped & cut (big size)'', ''scraped & cut (medium size)'',
     ''scraped & cut (small size)'', ''semi ripe'', ''unripe'', ''wash'',
     ''wash & blend okazi'', ''wash & chop spring onions'', ''washed & blend'',
     ''washed & chopped'', ''washed & squeezed'']"

text \<open>\<open>str.lower()\<close> on the ASCII letters; other bytes are kept.\<close>

definition lower_char :: "char \<Rightarrow> char" where
  "lower_char c =
     (case map_of (zip ''ABCDEFGHIJKLMNOPQRSTUVWXYZ'' ''abcdefghijklmnopqrstuvwxyz'') c of
        Some l \<Rightarrow> l
      | None \<Rightarrow> c)"

definition lower :: "string \<Rightarrow> string" where
  "lower s = map lower_char s"

text \<open>\<open>df[[a, b]].max(axis=1)\<close> on one row: NaN cells are skipped, two NaN give NaN.\<close>

fun row_max :: "real option \<Rightarrow> real option \<Rightarrow> real option" where
  "row_max (Some a) (Some b) = Some (max a b)"
| "row_max (Some a) None = Some a"
| "row_max None b = b"

text \<open>\<open>Series.sum()\<close>: NaN cells count as 0.\<close>

definition nansum :: "real option list \<Rightarrow> real" where
  "nansum xs = sum_list (map (\<lambda>x. case x of None \<Rightarrow> 0 | Some v \<Rightarrow> v) xs)"

type_synonym group_key = "int \<times> int \<times> int \<times> string \<times> string \<times> string"

definition group_key :: "'a keyed_scheme \<Rightarrow> group_key" where
  "group_key r =
     (year r, month r, week_month r, product_name r, product_uom r, sales_type r)"

text \<open>The filter step: rows whose lowercased product name is an attribute-only label go.\<close>

definition filter_attribute :: "txn list \<Rightarrow> txn list" where
  "filter_attribute df =
     filter (\<lambda>r. lower (product_name r) \<notin> set ATTRIBUTE_ONLY_PRODUCTS) df"

text \<open>The assignment \<open>df.loc[:, "qty_for_forecast"] = df[[...]].max(axis=1)\<close>.\<close>

definition assign_row_qty :: "txn list \<Rightarrow> txn list" where
  "assign_row_qty df =
     map (\<lambda>r. r\<lparr>row_qty := row_max (total_qty_invoiced r) (total_qty_delivered r)\<rparr>) df"

text \<open>
  \<open>df.groupby([...])["qty_for_forecast"].sum().reset_index()\<close>: one row per distinct key,
  keys in ascending order, the value the sum of the group's \<open>qty_for_forecast\<close> cells.
\<close>

definition groupby_sum :: "txn list \<Rightarrow> weekly list" where
  "groupby_sum df =
     map (\<lambda>k. case k of (yr, m, w, p, u, s) \<Rightarrow>
            \<lparr>year = yr, month = m, week_month = w, product_name = p, product_uom = u,
             sales_type = s,
             qty_for_forecast = nansum (map row_qty (filter (\<lambda>r. group_key r = k) df))\<rparr>)
         (sort (remdups (map group_key df)))"

definition build_weekly_timeseries :: "txn list \<Rightarrow> bool \<Rightarrow> weekly list" where
  "build_weekly_timeseries df filter_attribute_products =
     (let df1 = (if filter_attribute_products then filter_attribute df else df);
          df2 = assign_row_qty df1
      in groupby_sum df2)"

text \<open>
  The rows that contribute to a key: those the filter keeps (all rows when the filter is
  off) that carry the key.
\<close>

definition contributing :: "txn list \<Rightarrow> bool \<Rightarrow> group_key \<Rightarrow> txn list" where
  "contributing df filter_attribute_products k =
     filter (\<lambda>r. group_key r = k)
       (if filter_attribute_products then filter_attribute df else df)"

text \<open>
  Two transactions of one weekly key: the first invoiced but not delivered, the second
  delivered but not invoiced.
\<close>

definition two_sided_rows :: "txn list" where
  "two_sided_rows =
    [\<lparr>year = 2024, month = 1, week_month = 1, product_name = ''rice'', product_uom = ''kg'',
      sales_type = ''b2c'', total_qty_invoiced = Some 5, total_qty_delivered = Some 0,
      row_qty = None\<rparr>,
     \<lparr>year = 2024, month = 1, week_month = 1, product_name = ''rice'', product_uom = ''kg'',
      sales_type = ''b2c'', total_qty_invoiced = Some 0, total_qty_delivered = Some 5,
      row_qty = None\<rparr>]"

section \<open>Feature builder (features/xgboost_features.py)\<close>

text \<open>
  A row of the weekly table once \<open>main\<close> has added the \<open>date\<close> column, with the columns
  the feature builder and the encoder add. A lag or rolling cell is \<open>None\<close> where
  pandas holds NaN.
\<close>

record row = weekly +
  date :: timestamp
  y :: real
  lag_1 :: "real option"
  lag_4 :: "real option"
  lag_8 :: "real option"
  roll_mean_4 :: "real option"
  roll_mean_8 :: "real option"
  roll_std_4 :: "real option"
  month_sin :: real
  month_cos :: real
  product_name_encoded :: int
  product_uom_encoded :: int
  sales_type_encoded :: int

text \<open>
  A DataFrame of such rows. \<open>y_column\<close> says whether \<open>"y"\<close> is among its columns; where
  it is not, the \<open>y\<close> cells of the rows are not read.
\<close>

record data_frame =
  y_column :: bool
  rows :: "row list"

definition log1p :: "real \<Rightarrow> real" where
  "log1p x = ln (1 + x)"

definition expm1 :: "real \<Rightarrow> real" where
  "expm1 x = exp x - 1"

text \<open>The value of \<open>group_cols\<close> on a row.\<close>

definition group_cols :: "'a keyed_scheme \<Rightarrow> string \<times> string \<times> string" where
  "group_cols r = (product_name r, product_uom r, sales_type r)"

text \<open>\<open>ts.sort_values(["product_name", "product_uom", "date"])\<close>, a stable sort.\<close>

definition sort_values_name_uom_date :: "row list \<Rightarrow> row list" where
  "sort_values_name_uom_date ts =
     sort_key (\<lambda>r. (product_name r, product_uom r, ordinal (date r))) ts"

text \<open>A column assignment \<open>ts[col] = values\<close>, the values aligned with the rows.\<close>

definition assign :: "(row \<Rightarrow> 'v \<Rightarrow> row) \<Rightarrow> 'v list \<Rightarrow> row list \<Rightarrow> row list" where
  "assign upd col ts = map2 upd ts col"

text \<open>
  \<open>ts.groupby(group_cols)["y"].shift(k)\<close> reads two things of each row, its group and
  its \<open>y\<close>. For each row it gives the \<open>y\<close> of the k-th row before it among the rows of
  its own group, NaN where the group has fewer than k earlier rows. \<open>seen\<close> holds the
  (group, y) pairs already passed, in table order.
\<close>

fun shift_from :: "nat \<Rightarrow> ('g \<times> real) list \<Rightarrow> ('g \<times> real) list \<Rightarrow> real option list" where
  "shift_from k seen [] = []"
| "shift_from k seen ((g, v) # rest) =
     (let prev = map snd (filter (\<lambda>p. fst p = g) seen)
      in (if k = 0 then Some v
          else if k \<le> length prev then Some (prev ! (length prev - k)) else None))
     # shift_from k (seen @ [(g, v)]) rest"

definition groupby_shift :: "nat \<Rightarrow> row list \<Rightarrow> real option list" where
  "groupby_shift k ts = shift_from k [] (map (\<lambda>r. (group_cols r, y r)) ts)"

text \<open>
  \<open>column.rolling(w).agg()\<close> on a plain column (no grouping): at each position the
  aggregate of the last w cells up to and including it, NaN where fewer than w cells
  exist or one of them is NaN.
\<close>

fun rolling_from :: "nat \<Rightarrow> (real list \<Rightarrow> real) \<Rightarrow> real option list \<Rightarrow> real option list
    \<Rightarrow> real option list" where
  "rolling_from w agg seen [] = []"
| "rolling_from w agg seen (c # cs) =
     (let upto = seen @ [c]; win = drop (length upto - w) upto
      in (if length upto < w \<or> None \<in> set win then None else Some (agg (map the win))))
     # rolling_from w agg (seen @ [c]) cs"

definition rolling :: "nat \<Rightarrow> (real list \<Rightarrow> real) \<Rightarrow> real option list \<Rightarrow> real option list" where
  "rolling w agg col = rolling_from w agg [] col"

definition mean :: "real list \<Rightarrow> real" where
  "mean xs = sum_list xs / real (length xs)"

text \<open>The sample standard deviation (\<open>ddof=1\<close>).\<close>

definition std :: "real list \<Rightarrow> real" where
  "std xs = sqrt (sum_list (map (\<lambda>x. (x - mean xs)\<^sup>2) xs) / (real (length xs) - 1))"

text \<open>
  The first statements of \<open>create_xgboost_features\<close>: the sorted copy, with the \<open>y\<close>
  column created from \<open>qty_for_forecast\<close> where the input has none.
\<close>

definition sorted_with_y :: "data_frame \<Rightarrow> row list" where
  "sorted_with_y df =
     (let ts = sort_values_name_uom_date (rows df)
      in if \<not> y_column df
         then assign (\<lambda>r v. r\<lparr>y := v\<rparr>) (map (\<lambda>r. log1p (qty_for_forecast r)) ts) ts
         else ts)"

definition create_xgboost_features :: "data_frame \<Rightarrow> data_frame" where
  "create_xgboost_features df =
     (let ts = sorted_with_y df;
          ts = assign (\<lambda>r v. r\<lparr>lag_1 := v\<rparr>) (groupby_shift 1 ts) ts;
          ts = assign (\<lambda>r v. r\<lparr>lag_4 := v\<rparr>) (groupby_shift 4 ts) ts;
          ts = assign (\<lambda>r v. r\<lparr>lag_8 := v\<rparr>) (groupby_shift 8 ts) ts;
          ts = assign (\<lambda>r v. r\<lparr>roll_mean_4 := v\<rparr>) (rolling 4 mean (groupby_shift 1 ts)) ts;
          ts = assign (\<lambda>r v. r\<lparr>roll_mean_8 := v\<rparr>) (rolling 8 mean (groupby_shift 1 ts)) ts;
          ts = assign (\<lambda>r v. r\<lparr>roll_std_4 := v\<rparr>) (rolling 4 std (groupby_shift 1 ts)) ts;
          ts = assign (\<lambda>r v. r\<lparr>month_sin := v\<rparr>)
                 (map (\<lambda>r. sin (2 * pi * real_of_int (month r) / 12)) ts) ts;
          ts = assign (\<lambda>r v. r\<lparr>month_cos := v\<rparr>)
                 (map (\<lambda>r. cos (2 * pi * real_of_int (month r) / 12)) ts) ts
      in \<lparr>y_column = True, rows = ts\<rparr>)"

text \<open>A weekly row as \<open>main\<close> hands it on: key, quantity and date, no feature yet.\<close>

definition weekly_row :: "int \<Rightarrow> int \<Rightarrow> int \<Rightarrow> string \<Rightarrow> string \<Rightarrow> string \<Rightarrow> real \<Rightarrow> int \<Rightarrow> row" where
  "weekly_row yr m w p u s q d =
     \<lparr>year = yr, month = m, week_month = w, product_name = p, product_uom = u,
      sales_type = s, qty_for_forecast = q,
      date = \<lparr>ts_year = yr, ts_month = m, ts_day = d\<rparr>, y = 0,
      lag_1 = None, lag_4 = None, lag_8 = None, roll_mean_4 = None, roll_mean_8 = None,
      roll_std_4 = None, month_sin = 0, month_cos = 0, product_name_encoded = 0,
      product_uom_encoded = 0, sales_type_encoded = 0\<rparr>"

text \<open>
  One product and unit sold through two channels, \<open>b2c\<close> and \<open>B2C\<close> (both pass the
  case-insensitive channel filter of \<open>main\<close>), in alternating weeks.
\<close>

definition two_channel_frame :: data_frame where
  "two_channel_frame =
     \<lparr>y_column = False,
      rows = [weekly_row 2024 1 1 ''rice'' ''kg'' ''b2c'' 10 1,
              weekly_row 2024 1 2 ''rice'' ''kg'' ''B2C'' 100 8,
              weekly_row 2024 1 3 ''rice'' ''kg'' ''b2c'' 20 15,
              weekly_row 2024 1 4 ''rice'' ''kg'' ''B2C'' 200 22,
              weekly_row 2024 2 1 ''rice'' ''kg'' ''b2c'' 30 1,
              weekly_row 2024 2 2 ''rice'' ''kg'' ''B2C'' 300 8]\<rparr>"

section \<open>Point predictor (models/xgboost_model.py)\<close>

text \<open>An exception, held as its message \<open>str(e)\<close>.\<close>

type_synonym exn = string

text \<open>
  The model's input: the row's cells in the order of \<open>FEATURES\<close>, \<open>None\<close> for NaN. The
  trained regressor is opaque: a function from the feature vector to the prediction in
  log space, or to the exception \<open>predict\<close> raises.
\<close>

type_synonym feature_vector = "real option list"

type_synonym xgb_model = "feature_vector \<Rightarrow> exn + real"

definition FEATURES :: "row \<Rightarrow> feature_vector" where
  "FEATURES r =
     [lag_1 r, lag_4 r, lag_8 r, roll_mean_4 r, roll_mean_8 r, roll_std_4 r,
      Some (month_sin r), Some (month_cos r),
      Some (real_of_int (product_name_encoded r)), Some (real_of_int (product_uom_encoded r)),
      Some (real_of_int (sales_type_encoded r))]"

text \<open>The encoder dictionaries of the three \<open>CAT_COLS\<close>: value to integer code.\<close>

record encoders =
  enc_product_name :: "(string \<times> int) list"
  enc_product_uom :: "(string \<times> int) list"
  enc_sales_type :: "(string \<times> int) list"

text \<open>\<open>Series.unique()\<close>: the distinct values in order of first appearance.\<close>

definition unique :: "'a list \<Rightarrow> 'a list" where
  "unique xs = rev (remdups (rev xs))"

text \<open>\<open>{val: idx for idx, val in enumerate(unique_vals)}\<close>\<close>

definition make_encoder :: "string list \<Rightarrow> (string \<times> int) list" where
  "make_encoder col = (let unique_vals = unique col in zip unique_vals (map int [0..<length unique_vals]))"

text \<open>\<open>df[col].map(encoder).fillna(-1).astype(int)\<close> on one cell.\<close>

definition encode_cell :: "(string \<times> int) list \<Rightarrow> string \<Rightarrow> int" where
  "encode_cell enc v = (case map_of enc v of Some idx \<Rightarrow> idx | None \<Rightarrow> - 1)"

definition encode_categorical_features :: "data_frame \<Rightarrow> encoders option \<Rightarrow> data_frame \<times> encoders" where
  "encode_categorical_features df encoders_arg =
     (let encoders =
            (case encoders_arg of
               None \<Rightarrow> \<lparr>enc_product_name = make_encoder (map product_name (rows df)),
                         enc_product_uom = make_encoder (map product_uom (rows df)),
                         enc_sales_type = make_encoder (map sales_type (rows df))\<rparr>
             | Some e \<Rightarrow> e);
          ts = rows df;
          ts = assign (\<lambda>r v. r\<lparr>product_name_encoded := v\<rparr>)
                 (map (\<lambda>r. encode_cell (enc_product_name encoders) (product_name r)) ts) ts;
          ts = assign (\<lambda>r v. r\<lparr>product_uom_encoded := v\<rparr>)
                 (map (\<lambda>r. encode_cell (enc_product_uom encoders) (product_uom r)) ts) ts;
          ts = assign (\<lambda>r v. r\<lparr>sales_type_encoded := v\<rparr>)
                 (map (\<lambda>r. encode_cell (enc_sales_type encoders) (sales_type r)) ts) ts
      in (df\<lparr>rows := ts\<rparr>, encoders))"

text \<open>\<open>dropna(subset=FEATURES + ["y"])\<close>: the rows with no NaN among those cells.\<close>

definition complete_features :: "row \<Rightarrow> bool" where
  "complete_features r = (None \<notin> set (FEATURES r))"

text \<open>
  The regressor's \<open>fit\<close> is a parameter: from the training matrix (feature vectors and
  targets) to the trained model, or to the exception it raises.
\<close>

type_synonym fitter = "(feature_vector \<times> real) list \<Rightarrow> exn + xgb_model"

definition train_xgboost_model :: "fitter \<Rightarrow> data_frame \<Rightarrow> exn + (xgb_model \<times> encoders)" where
  "train_xgboost_model fit train_df =
     (let (train_df, encoders) = encode_categorical_features train_df None;
          ts = assign (\<lambda>r v. r\<lparr>y := v\<rparr>)
                 (map (\<lambda>r. log1p (qty_for_forecast r)) (rows train_df)) (rows train_df);
          ts = filter complete_features ts;
          after_drop = length ts
      in if after_drop = 0 then Inl ''Insufficient training data after NaN removal''
         else (case fit (map (\<lambda>r. (FEATURES r, y r)) ts) of
                 Inl e \<Rightarrow> Inl e
               | Inr model \<Rightarrow> Inr (model, encoders)))"

text \<open>
  The body of the \<open>try\<close> block of one step of the recursive forecast: the frame with the
  new future row appended and the prediction, or the exception of the step.
\<close>

definition forecast_step ::
  "xgb_model \<Rightarrow> (data_frame \<Rightarrow> data_frame) \<Rightarrow> encoders \<Rightarrow> data_frame \<Rightarrow> exn + (data_frame \<times> real)" where
  "forecast_step model feature_creator encoders df =
     (let df = feature_creator df;
          (df, _) = encode_categorical_features df (Some encoders)
      in case rows df of
           [] \<Rightarrow> Inl ''index 0 is out of bounds for axis 0 with size 0''
         | _ \<Rightarrow>
           (let last_row = last (rows df)
            in case model (FEATURES last_row) of
                 Inl e \<Rightarrow> Inl e
               | Inr pred_log \<Rightarrow>
                   (let pred = max (expm1 pred_log) 0;
                        next_row = last_row\<lparr>date := add_days 7 (date last_row),
                                            qty_for_forecast := pred, y := pred_log\<rparr>;
                        df = df\<lparr>rows := rows df @ [next_row]\<rparr>
                    in Inr (df, pred))))"

text \<open>
  The loop \<open>for step in range(horizon)\<close> with its state (the frame and the forecasts so
  far): a failed step fills the remaining \<open>horizon - step\<close> places with 0 and breaks.
\<close>

function forecast_loop ::
  "xgb_model \<Rightarrow> (data_frame \<Rightarrow> data_frame) \<Rightarrow> encoders \<Rightarrow> nat \<Rightarrow> nat \<Rightarrow> data_frame \<Rightarrow> real list
     \<Rightarrow> real list" where
  "forecast_loop model feature_creator encoders horizon step df forecasts =
     (if step < horizon then
        (case forecast_step model feature_creator encoders df of
           Inl e \<Rightarrow> forecasts @ replicate (horizon - step) 0
         | Inr (df', pred) \<Rightarrow>
             forecast_loop model feature_creator encoders horizon (Suc step) df' (forecasts @ [pred]))
      else forecasts)"
  by pat_completeness auto
termination
  by (relation "measure (\<lambda>(model, feature_creator, encoders, horizon, step, df, forecasts). horizon - step)")
    auto

text \<open>
  The first statements of \<open>xgboost_recursive_forecast\<close>: the copy of the product's frame
  with \<open>y\<close> set from the quantities.
\<close>

definition log_target_copy :: "data_frame \<Rightarrow> data_frame" where
  "log_target_copy product_df =
     \<lparr>y_column = True,
      rows = assign (\<lambda>r v. r\<lparr>y := v\<rparr>)
               (map (\<lambda>r. log1p (qty_for_forecast r)) (rows product_df)) (rows product_df)\<rparr>"

text \<open>
  \<open>xgboost_recursive_forecast\<close>. Nothing outside the loop's \<open>try\<close> raises, so the result
  is always \<open>Inr\<close>; the sum type keeps the caller's \<open>except\<close> branch in view.
\<close>

definition xgboost_recursive_forecast ::
  "xgb_model \<Rightarrow> data_frame \<Rightarrow> nat \<Rightarrow> (data_frame \<Rightarrow> data_frame) \<Rightarrow> encoders \<Rightarrow> exn + real list" where
  "xgboost_recursive_forecast model product_df horizon feature_creator encoders =
     (let df = log_target_copy product_df
      in Inr (forecast_loop model feature_creator encoders horizon 0 df []))"

text \<open>
  The state after the first \<open>n\<close> steps of the loop when each of them succeeded: the frame
  and the predictions in order; \<open>Inl\<close> when one of them raised.
\<close>

fun steps_done ::
  "xgb_model \<Rightarrow> (data_frame \<Rightarrow> data_frame) \<Rightarrow> encoders \<Rightarrow> nat \<Rightarrow> data_frame
     \<Rightarrow> exn + (data_frame \<times> real list)" where
  "steps_done model feature_creator encoders 0 df = Inr (df, [])"
| "steps_done model feature_creator encoders (Suc n) df =
     (case steps_done model feature_creator encoders n df of
        Inl e \<Rightarrow> Inl e
      | Inr (df', preds) \<Rightarrow>
          (case forecast_step model feature_creator encoders df' of
             Inl e \<Rightarrow> Inl e
           | Inr (df'', pred) \<Rightarrow> Inr (df'', preds @ [pred])))"

section \<open>Heuristic forecasters (models/heuristics.py)\<close>

text \<open>\<open>Series.mean()\<close>: NaN on the empty series.\<close>

definition series_mean :: "real list \<Rightarrow> real option" where
  "series_mean series = (if series = [] then None else Some (mean series))"

text \<open>\<open>series.tail(window)\<close>\<close>

definition tail :: "nat \<Rightarrow> real list \<Rightarrow> real list" where
  "tail window series = drop (length series - window) series"

definition rolling_mean_forecast :: "real list \<Rightarrow> nat \<Rightarrow> nat \<Rightarrow> real list" where
  "rolling_mean_forecast series horizon window =
     (let forecast_value =
            (if length series < window then series_mean series
             else series_mean (tail window series));
          forecast_value =
            (case forecast_value of
               None \<Rightarrow> 0
             | Some v \<Rightarrow> if v < 0 then 0 else v)
      in replicate horizon forecast_value)"

definition exponential_smoothing_forecast :: "real list \<Rightarrow> nat \<Rightarrow> real \<Rightarrow> real list" where
  "exponential_smoothing_forecast series horizon alpha =
     (case series of
        [] \<Rightarrow> replicate horizon 0
      | first # rest \<Rightarrow>
          (let level = foldl (\<lambda>level value. alpha * value + (1 - alpha) * level) first rest;
               forecast_value = max 0 level
           in replicate horizon forecast_value))"

definition naive_forecast :: "real list \<Rightarrow> nat \<Rightarrow> real list" where
  "naive_forecast series horizon =
     (if length series = 0 then replicate horizon 0
      else (let last_value = last series;
                forecast_value = max 0 last_value
            in replicate horizon forecast_value))"

section \<open>Configuration (config.py)\<close>

definition FORECAST_HORIZON :: nat where
  "FORECAST_HORIZON = 2"

definition MIN_XGBOOST_ROWS :: nat where
  "MIN_XGBOOST_ROWS = 10"

definition INACTIVE_GAP_WEEKS :: int where
  "INACTIVE_GAP_WEEKS = 4"

section \<open>Per-product forecast selector (pipeline/forecast_pipeline.py)\<close>

datatype method_tag =
  ZERO_INACTIVE | XGBOOST_RECURSIVE | HEURISTIC_ROLLING_MEAN | HEURISTIC_NAIVE | HEURISTIC_ZERO

text \<open>
  A row of the forecast table. \<open>forecast_date\<close> is its \<open>date\<close> column; \<open>year\<close>, \<open>month\<close>
  and \<open>week_month\<close> are derived from that date.
\<close>

record forecast_row = keyed +
  forecast_date :: timestamp
  forecast_qty :: real
  forecast_method :: method_tag

text \<open>Python's truth value of the \<open>sales_type\<close> argument: \<open>None\<close> and \<open>""\<close> are false.\<close>

definition truthy :: "string option \<Rightarrow> bool" where
  "truthy s = (case s of None \<Rightarrow> False | Some v \<Rightarrow> v \<noteq> [])"

text \<open>
  The product's rows: those of the product and unit, of the channel when one is given,
  sorted by date (\<open>product_df\<close> after \<open>sort_values("date")\<close>).
\<close>

definition product_rows :: "data_frame \<Rightarrow> string \<Rightarrow> string \<Rightarrow> string option \<Rightarrow> row list" where
  "product_rows ts name uom stype =
     (let product_df = filter (\<lambda>r. product_name r = name \<and> product_uom r = uom) (rows ts);
          product_df = (if truthy stype then filter (\<lambda>r. sales_type r = the stype) product_df
                        else product_df)
      in sort_key (\<lambda>r. ordinal (date r)) product_df)"

text \<open>\<open>Series.max()\<close> on a column of dates: NaT on the empty column.\<close>

definition max_date :: "timestamp list \<Rightarrow> timestamp option" where
  "max_date ds =
     (case ds of
        [] \<Rightarrow> None
      | d # rest \<Rightarrow> Some (foldl (\<lambda>a b. if ordinal a < ordinal b then b else a) d rest))"

text \<open>
  The inactivity gap: whole weeks from the last date with a positive quantity to today,
  \<open>None\<close> (\<open>np.inf\<close>) when no row has a positive quantity.
\<close>

definition gap_weeks :: "timestamp \<Rightarrow> row list \<Rightarrow> int option" where
  "gap_weeks today product_df =
     (let last_nonzero_date = max_date (map date (filter (\<lambda>r. qty_for_forecast r > 0) product_df))
      in case last_nonzero_date of
           Some d \<Rightarrow> Some ((ordinal today - ordinal d) div 7)
         | None \<Rightarrow> None)"

text \<open>\<open>gap_weeks >= INACTIVE_GAP_WEEKS\<close>, with \<open>np.inf\<close> above every number.\<close>

definition inactive :: "int option \<Rightarrow> bool" where
  "inactive gap = (case gap of None \<Rightarrow> True | Some g \<Rightarrow> g \<ge> INACTIVE_GAP_WEEKS)"

text \<open>\<open>len(product_df.dropna(subset=["lag_1", "lag_4", "lag_8"]))\<close>\<close>

definition fully_lagged :: "row list \<Rightarrow> nat" where
  "fully_lagged product_df =
     length (filter (\<lambda>r. lag_1 r \<noteq> None \<and> lag_4 r \<noteq> None \<and> lag_8 r \<noteq> None) product_df)"

text \<open>\<open>series.diff()\<close> without its leading NaN, which \<open>mean()\<close> skips.\<close>

definition diff :: "real list \<Rightarrow> real list" where
  "diff series = map2 (\<lambda>a b. b - a) (butlast series) (tl series)"

text \<open>The adaptive heuristic branch: the forecast values and the \<open>forecast_method\<close> tag.\<close>

definition adaptive_heuristic :: "real list \<Rightarrow> real list \<times> method_tag" where
  "adaptive_heuristic series =
     (if length series = 0 \<or> sum_list series = 0 then (replicate FORECAST_HORIZON 0, HEURISTIC_ZERO)
      else if length series = 1 then (naive_forecast series FORECAST_HORIZON, HEURISTIC_NAIVE)
      else
        (let mean_val = mean series;
             std_val = std series;
             cv = (if mean_val > 0 then Some (std_val / mean_val) else None);
             trend = (if length series > 1 then mean (diff series) else 0)
         in if (case cv of None \<Rightarrow> False | Some c \<Rightarrow> c < 0.3) \<and> \<bar>trend\<bar> < mean_val * 0.1
            then (naive_forecast series FORECAST_HORIZON, HEURISTIC_NAIVE)
            else (rolling_mean_forecast series FORECAST_HORIZON 4, HEURISTIC_ROLLING_MEAN)))"

text \<open>
  \<open>pd.date_range(start=today, periods=n, freq="W-SUN")\<close>: the first Sunday on or after
  \<open>today\<close>, then every seventh day.
\<close>

definition date_range_W_SUN :: "timestamp \<Rightarrow> nat \<Rightarrow> timestamp list" where
  "date_range_W_SUN today periods =
     (let first = add_days (nat ((6 - weekday today) mod 7)) today
      in map (\<lambda>i. add_days (7 * i) first) [0..<periods])"

text \<open>
  The three branches of \<open>forecast_single_product\<close> (inactive, model, adaptive heuristic)
  for a product with rows: the forecast values and the \<open>forecast_method\<close> tag. An exception of the
  recursive forecast falls back to the rolling mean.
\<close>

definition select_forecast ::
  "timestamp \<Rightarrow> data_frame \<Rightarrow> xgb_model \<Rightarrow> encoders \<Rightarrow> row list \<Rightarrow> real list \<times> method_tag" where
  "select_forecast today ts model encoders product_df =
     (let series = map qty_for_forecast product_df
      in if inactive (gap_weeks today product_df)
         then (replicate FORECAST_HORIZON 0, ZERO_INACTIVE)
         else if fully_lagged product_df \<ge> MIN_XGBOOST_ROWS then
           (case xgboost_recursive_forecast model \<lparr>y_column = y_column ts, rows = product_df\<rparr>
                   FORECAST_HORIZON create_xgboost_features encoders of
              Inr values \<Rightarrow> (values, XGBOOST_RECURSIVE)
            | Inl e \<Rightarrow> (rolling_mean_forecast series FORECAST_HORIZON 4, HEURISTIC_ROLLING_MEAN))
         else adaptive_heuristic series)"

text \<open>
  The final \<open>pd.DataFrame({...})\<close>: one row per future date, with the date's year, month
  and business week; pandas raises when the columns differ in length.
\<close>

definition forecast_table ::
  "string \<Rightarrow> string \<Rightarrow> string option \<Rightarrow> method_tag \<Rightarrow> timestamp list \<Rightarrow> real list
     \<Rightarrow> exn + forecast_row list" where
  "forecast_table name uom stype tag future_dates forecast_values =
     (if length forecast_values \<noteq> length future_dates
      then Inl ''All arrays must be of the same length''
      else Inr (map2 (\<lambda>(d, w) v.
                  \<lparr>year = ts_year d, month = ts_month d, week_month = w,
                   product_name = name, product_uom = uom,
                   sales_type = (if truthy stype then the stype else ''ALL''),
                   forecast_date = d, forecast_qty = v, forecast_method = tag\<rparr>)
                (zip future_dates (week_month_from_date future_dates)) forecast_values))"

text \<open>
  \<open>forecast_single_product\<close>. \<open>today\<close> is the reading of the clock,
  \<open>pd.Timestamp.now().normalize()\<close>. The result is the forecast table (empty for a
  product with no rows), or the exception that leaves the function.
\<close>

definition forecast_single_product ::
  "timestamp \<Rightarrow> data_frame \<Rightarrow> xgb_model \<Rightarrow> encoders \<Rightarrow> string \<Rightarrow> string \<Rightarrow> string option
     \<Rightarrow> exn + forecast_row list" where
  "forecast_single_product today ts model encoders name uom stype =
     (let product_df = product_rows ts name uom stype
      in if product_df = [] then Inr []
         else
           (let (forecast_values, tag) = select_forecast today ts model encoders product_df;
                future_dates = date_range_W_SUN today FORECAST_HORIZON
            in forecast_table name uom stype tag future_dates forecast_values))"

section \<open>Example tables\<close>

text \<open>A one-row history: five units of rice sold on 2024-01-01.\<close>

definition single_row_frame :: data_frame where
  "single_row_frame = \<lparr>y_column = False, rows = [weekly_row 2024 1 1 ''rice'' ''kg'' ''b2c'' 5 1]\<rparr>"

text \<open>A model that predicts \<open>ln 2\<close> while the row has no \<open>lag_1\<close> and raises once it has one.\<close>

definition first_step_only_model :: xgb_model where
  "first_step_only_model fv = (if hd fv = None then Inr (ln 2) else Inl ''boom'')"

text \<open>A model whose \<open>predict\<close> always raises.\<close>

definition failing_model :: xgb_model where
  "failing_model fv = Inl ''boom''"

definition no_encoders :: encoders where
  "no_encoders = \<lparr>enc_product_name = [], enc_product_uom = [], enc_sales_type = []\<rparr>"

text \<open>A row of a table that already has its lag columns filled.\<close>

definition lagged_row :: "int \<Rightarrow> int \<Rightarrow> int \<Rightarrow> string \<Rightarrow> string \<Rightarrow> string \<Rightarrow> real \<Rightarrow> int \<Rightarrow> row" where
  "lagged_row yr m w p u s q d =
     (weekly_row yr m w p u s q d)\<lparr>y := log1p q, lag_1 := Some 0, lag_4 := Some 0, lag_8 := Some 0\<rparr>"

text \<open>
  Ten weeks of rice sales, five units a week, from 2023-11-01 to 2024-01-08, every row
  with its three lags.
\<close>

definition long_history_frame :: data_frame where
  "long_history_frame =
     \<lparr>y_column = True,
      rows = [lagged_row 2023 11 1 ''rice'' ''kg'' ''b2c'' 5 1,
              lagged_row 2023 11 2 ''rice'' ''kg'' ''b2c'' 5 8,
              lagged_row 2023 11 3 ''rice'' ''kg'' ''b2c'' 5 15,
              lagged_row 2023 11 4 ''rice'' ''kg'' ''b2c'' 5 22,
              lagged_row 2023 12 1 ''rice'' ''kg'' ''b2c'' 5 1,
              lagged_row 2023 12 2 ''rice'' ''kg'' ''b2c'' 5 8,
              lagged_row 2023 12 3 ''rice'' ''kg'' ''b2c'' 5 15,
              lagged_row 2023 12 4 ''rice'' ''kg'' ''b2c'' 5 22,
              lagged_row 2024 1 1 ''rice'' ''kg'' ''b2c'' 5 1,
              lagged_row 2024 1 2 ''rice'' ''kg'' ''b2c'' 5 8]\<rparr>"

text \<open>
  The frame of \<open>single_row_frame\<close> after one successful step of the recursive forecast
  with \<open>first_step_only_model\<close>: the featured, encoded row and the appended future row.
\<close>

definition after_first_step :: data_frame where
  "after_first_step =
     \<lparr>y_column = True,
      rows =
        [\<lparr>year = 2024, month = 1, week_month = 1, product_name = ''rice'', product_uom = ''kg'',
          sales_type = ''b2c'', qty_for_forecast = 5,
          date = \<lparr>ts_year = 2024, ts_month = 1, ts_day = 1\<rparr>,
          y = log1p 5, lag_1 = None, lag_4 = None, lag_8 = None,
          roll_mean_4 = None, roll_mean_8 = None, roll_std_4 = None,
          month_sin = sin (pi / 6), month_cos = cos (pi / 6),
          product_name_encoded = - 1, product_uom_encoded = - 1, sales_type_encoded = - 1\<rparr>,
         \<lparr>year = 2024, month = 1, week_month = 1, product_name = ''rice'', product_uom = ''kg'',
          sales_type = ''b2c'', qty_for_forecast = 1,
          date = \<lparr>ts_year = 2024, ts_month = 1, ts_day = 8\<rparr>,
          y = ln 2, lag_1 = None, lag_4 = None, lag_8 = None,
          roll_mean_4 = None, roll_mean_8 = None, roll_std_4 = None,
          month_sin = sin (pi / 6), month_cos = cos (pi / 6),
          product_name_encoded = - 1, product_uom_encoded = - 1, sales_type_encoded = - 1\<rparr>]\<rparr>"

text \<open>\<open>series = product_df["qty_for_forecast"]\<close>\<close>

definition product_series :: "data_frame \<Rightarrow> string \<Rightarrow> string \<Rightarrow> string option \<Rightarrow> real list" where
  "product_series ts name uom stype = map qty_for_forecast (product_rows ts name uom stype)"

text \<open>
  Five weeks of rice sales, 2023-12-08 to 2024-01-08, with the given quantities and no
  lag yet.
\<close>

definition five_week_frame :: "real \<Rightarrow> real \<Rightarrow> real \<Rightarrow> real \<Rightarrow> real \<Rightarrow> data_frame" where
  "five_week_frame q1 q2 q3 q4 q5 =
     \<lparr>y_column = False,
      rows = [weekly_row 2023 12 2 ''rice'' ''kg'' ''b2c'' q1 8,
              weekly_row 2023 12 3 ''rice'' ''kg'' ''b2c'' q2 15,
              weekly_row 2023 12 4 ''rice'' ''kg'' ''b2c'' q3 22,
              weekly_row 2024 1 1 ''rice'' ''kg'' ''b2c'' q4 1,
              weekly_row 2024 1 2 ''rice'' ''kg'' ''b2c'' q5 8]\<rparr>"

section \<open>Pipeline orchestrator (pipeline/forecast_pipeline.py)\<close>

text \<open>A row of the failed list: the group and the reason.\<close>

type_synonym failed_product = "(string \<times> string \<times> string) \<times> string"

text \<open>
  What a run leaves behind: the table it returns, the failed list it has built, and the
  file \<open>failed_forecasts.csv\<close> where it wrote one.
\<close>

record pipeline_result =
  final_forecast :: "forecast_row list"
  failed_products :: "failed_product list"
  failed_forecasts_csv :: "failed_product list option"

text \<open>The per-product call as the loop sees it: a table, or an exception.\<close>

type_synonym forecaster =
  "data_frame \<Rightarrow> xgb_model \<Rightarrow> encoders \<Rightarrow> string \<Rightarrow> string \<Rightarrow> string option \<Rightarrow> exn + forecast_row list"

text \<open>
  The loop over the products, with its two accumulators. The \<open>try\<close> around the call
  turns an exception into an entry of the failed list; an empty table becomes one too.
\<close>

fun forecast_products ::
  "forecaster \<Rightarrow> data_frame \<Rightarrow> xgb_model \<Rightarrow> encoders \<Rightarrow> (string \<times> string \<times> string) list
     \<Rightarrow> forecast_row list list \<times> failed_product list
     \<Rightarrow> forecast_row list list \<times> failed_product list" where
  "forecast_products fsp ts model encoders [] (all_forecasts, failed) = (all_forecasts, failed)"
| "forecast_products fsp ts model encoders ((name, uom, stype) # products) (all_forecasts, failed) =
     (case fsp ts model encoders name uom (Some stype) of
        Inr forecast_df \<Rightarrow>
          (if forecast_df \<noteq> []
           then forecast_products fsp ts model encoders products (all_forecasts @ [forecast_df], failed)
           else forecast_products fsp ts model encoders products
                  (all_forecasts, failed @ [((name, uom, stype), ''Empty forecast returned'')]))
      | Inl e \<Rightarrow>
          forecast_products fsp ts model encoders products
            (all_forecasts, failed @ [((name, uom, stype), ''Error: '' @ e)]))"

text \<open>
  \<open>run_pipeline\<close> with the per-product call as a parameter. A failed training re-raises.
  After the loop, the logged average \<open>forecast_time/len(products)\<close> divides by the number
  of products.
\<close>

definition run_pipeline_with :: "forecaster \<Rightarrow> fitter \<Rightarrow> data_frame \<Rightarrow> exn + pipeline_result" where
  "run_pipeline_with fsp fit ts =
     (let ts = create_xgboost_features ts
      in case train_xgboost_model fit ts of
           Inl e \<Rightarrow> Inl e
         | Inr (model, encoders) \<Rightarrow>
             (let products = unique (map group_cols (rows ts));
                  (all_forecasts, failed) = forecast_products fsp ts model encoders products ([], [])
              in if length products = 0 then Inl ''float division by zero''
                 else if all_forecasts \<noteq> []
                 then Inr \<lparr>final_forecast = concat all_forecasts, failed_products = failed,
                           failed_forecasts_csv = (if failed \<noteq> [] then Some failed else None)\<rparr>
                 else Inr \<lparr>final_forecast = [], failed_products = failed,
                           failed_forecasts_csv = None\<rparr>))"

text \<open>\<open>run_pipeline\<close> itself calls \<open>forecast_single_product\<close>, which reads the clock.\<close>

definition run_pipeline :: "timestamp \<Rightarrow> fitter \<Rightarrow> data_frame \<Rightarrow> exn + pipeline_result" where
  "run_pipeline today fit ts = run_pipeline_with (forecast_single_product today) fit ts"

text \<open>
  What the loop does with one product, read off its body: the call it makes, and the
  reason it records when the call raised or returned an empty table.
\<close>

definition group_outcome ::
  "forecaster \<Rightarrow> data_frame \<Rightarrow> xgb_model \<Rightarrow> encoders \<Rightarrow> string \<times> string \<times> string
     \<Rightarrow> exn + forecast_row list" where
  "group_outcome fsp ts model encoders g =
     (case g of (name, uom, stype) \<Rightarrow> fsp ts model encoders name uom (Some stype))"

definition failure_reason :: "exn + forecast_row list \<Rightarrow> string option" where
  "failure_reason outcome =
     (case outcome of
        Inl e \<Rightarrow> Some (''Error: '' @ e)
      | Inr forecast_df \<Rightarrow> if forecast_df = [] then Some ''Empty forecast returned'' else None)"

text \<open>The ten rice weeks of \<open>long_history_frame\<close> and one week of beans, with no \<open>y\<close> column.\<close>

definition two_product_frame :: data_frame where
  "two_product_frame =
     \<lparr>y_column = False,
      rows = rows long_history_frame @ [weekly_row 2024 1 2 ''beans'' ''kg'' ''b2c'' 3 8]\<rparr>"

text \<open>A \<open>fit\<close> that always returns the same model.\<close>

definition constant_fit :: "xgb_model \<Rightarrow> fitter" where
  "constant_fit model training = Inr model"

text \<open>A per-product call that raises for beans and returns one forecast row otherwise.\<close>

definition beans_fail :: forecaster where
  "beans_fail ts model encoders name uom stype =
     (if name = ''beans'' then Inl ''boom''
      else Inr [\<lparr>year = 2024, month = 1, week_month = 2, product_name = name, product_uom = uom,
                 sales_type = the stype,
                 forecast_date = \<lparr>ts_year = 2024, ts_month = 1, ts_day = 14\<rparr>,
                 forecast_qty = 5, forecast_method = HEURISTIC_NAIVE\<rparr>])"

text \<open>A per-product call that always raises.\<close>

definition all_fail :: forecaster where
  "all_fail ts model encoders name uom stype = Inl ''boom''"

section \<open>The object store: which table each stage mutates\<close>

text \<open>
  The pure functions above say what each stage computes. To say which DataFrame object
  it writes to, the stages are here run on a store: a list of objects, an address being
  the object's index. \<open>alloc\<close> is every pandas call that returns a new object
  (\<open>.copy()\<close>, \<open>df[mask]\<close>, \<open>sort_values\<close>, \<open>dropna\<close>, \<open>pd.concat\<close>); \<open>modify\<close> is an
  assignment into an existing object (\<open>df[col] = ...\<close>, \<open>df.loc[:, col] = ...\<close>).
\<close>

type_synonym 'a store = "'a list"

definition alloc :: "'a \<Rightarrow> 'a store \<Rightarrow> nat \<times> 'a store" where
  "alloc v s = (length s, s @ [v])"

definition modify :: "nat \<Rightarrow> ('a \<Rightarrow> 'a) \<Rightarrow> 'a store \<Rightarrow> 'a store" where
  "modify a f s = s[a := f (s ! a)]"

text \<open>Every object of \<open>s\<close> is still there in \<open>s'\<close>, at its address, with its content.\<close>

definition extends :: "'a store \<Rightarrow> 'a store \<Rightarrow> bool" where
  "extends s s' = (take (length s) s' = s)"

text \<open>
  \<open>build_weekly_timeseries\<close> on the object \<open>df\<close>: the filter gives a new object, the copy
  another, the quantity column is assigned on the copy, the grouped sum is returned.
\<close>

definition build_weekly_timeseries_st ::
  "nat \<Rightarrow> bool \<Rightarrow> txn list store \<Rightarrow> weekly list \<times> txn list store" where
  "build_weekly_timeseries_st df filter_attribute_products s =
     (let (df, s) = (if filter_attribute_products then alloc (filter_attribute (s ! df)) s
                     else (df, s));
          (df, s) = alloc (s ! df) s;
          s = modify df assign_row_qty s
      in (groupby_sum (s ! df), s))"

text \<open>An in-place column assignment on a frame of the store.\<close>

definition set_column ::
  "nat \<Rightarrow> (row \<Rightarrow> 'v \<Rightarrow> row) \<Rightarrow> (row list \<Rightarrow> 'v list) \<Rightarrow> data_frame store \<Rightarrow> data_frame store" where
  "set_column a upd col s =
     modify a (\<lambda>df. df\<lparr>rows := assign upd (col (rows df)) (rows df)\<rparr>) s"

text \<open>
  \<open>create_xgboost_features\<close> on the object \<open>ts\<close>: \<open>sort_values\<close> and \<open>.copy()\<close> each give
  a new object; every column is then assigned on that copy, which is returned.
\<close>

definition create_xgboost_features_st :: "nat \<Rightarrow> data_frame store \<Rightarrow> nat \<times> data_frame store" where
  "create_xgboost_features_st ts s =
     (let (ts, s) = alloc ((s ! ts)\<lparr>rows := sort_values_name_uom_date (rows (s ! ts))\<rparr>) s;
          (ts, s) = alloc (s ! ts) s;
          s = (if \<not> y_column (s ! ts)
               then modify ts (\<lambda>df. df\<lparr>y_column := True\<rparr>)
                      (set_column ts (\<lambda>r v. r\<lparr>y := v\<rparr>) (map (\<lambda>r. log1p (qty_for_forecast r))) s)
               else s);
          s = set_column ts (\<lambda>r v. r\<lparr>lag_1 := v\<rparr>) (groupby_shift 1) s;
          s = set_column ts (\<lambda>r v. r\<lparr>lag_4 := v\<rparr>) (groupby_shift 4) s;
          s = set_column ts (\<lambda>r v. r\<lparr>lag_8 := v\<rparr>) (groupby_shift 8) s;
          s = set_column ts (\<lambda>r v. r\<lparr>roll_mean_4 := v\<rparr>) (\<lambda>ts. rolling 4 mean (groupby_shift 1 ts)) s;
          s = set_column ts (\<lambda>r v. r\<lparr>roll_mean_8 := v\<rparr>) (\<lambda>ts. rolling 8 mean (groupby_shift 1 ts)) s;
          s = set_column ts (\<lambda>r v. r\<lparr>roll_std_4 := v\<rparr>) (\<lambda>ts. rolling 4 std (groupby_shift 1 ts)) s;
          s = set_column ts (\<lambda>r v. r\<lparr>month_sin := v\<rparr>)
                (map (\<lambda>r. sin (2 * pi * real_of_int (month r) / 12))) s;
          s = set_column ts (\<lambda>r v. r\<lparr>month_cos := v\<rparr>)
                (map (\<lambda>r. cos (2 * pi * real_of_int (month r) / 12))) s
      in (ts, s))"

text \<open>
  \<open>encode_categorical_features\<close> on the object \<open>df\<close>: the copy is a new object, the three
  encoded columns are assigned on it. The encoders are built from the input when none
  are given; given ones are read only.
\<close>

definition encode_categorical_features_st ::
  "nat \<Rightarrow> encoders option \<Rightarrow> data_frame store \<Rightarrow> (nat \<times> encoders) \<times> data_frame store" where
  "encode_categorical_features_st df encoders_arg s =
     (let (df, s) = alloc (s ! df) s;
          encoders =
            (case encoders_arg of
               None \<Rightarrow> \<lparr>enc_product_name = make_encoder (map product_name (rows (s ! df))),
                         enc_product_uom = make_encoder (map product_uom (rows (s ! df))),
                         enc_sales_type = make_encoder (map sales_type (rows (s ! df)))\<rparr>
             | Some e \<Rightarrow> e);
          s = set_column df (\<lambda>r v. r\<lparr>product_name_encoded := v\<rparr>)
                (map (\<lambda>r. encode_cell (enc_product_name encoders) (product_name r))) s;
          s = set_column df (\<lambda>r v. r\<lparr>product_uom_encoded := v\<rparr>)
                (map (\<lambda>r. encode_cell (enc_product_uom encoders) (product_uom r))) s;
          s = set_column df (\<lambda>r v. r\<lparr>sales_type_encoded := v\<rparr>)
                (map (\<lambda>r. encode_cell (enc_sales_type encoders) (sales_type r))) s
      in ((df, encoders), s))"

text \<open>
  \<open>train_xgboost_model\<close> on the object \<open>train_df\<close>: the encoder's copy, a second copy that
  receives the log target, and the table \<open>dropna\<close> returns are all new objects.
\<close>

definition train_xgboost_model_st ::
  "fitter \<Rightarrow> nat \<Rightarrow> data_frame store \<Rightarrow> (exn + (xgb_model \<times> encoders)) \<times> data_frame store" where
  "train_xgboost_model_st fit train_df s =
     (let ((train_df, encoders), s) = encode_categorical_features_st train_df None s;
          (train_df, s) = alloc (s ! train_df) s;
          s = set_column train_df (\<lambda>r v. r\<lparr>y := v\<rparr>) (map (\<lambda>r. log1p (qty_for_forecast r))) s;
          (train_df, s) = alloc ((s ! train_df)\<lparr>rows := filter complete_features (rows (s ! train_df))\<rparr>) s;
          after_drop = length (rows (s ! train_df))
      in if after_drop = 0 then (Inl ''Insufficient training data after NaN removal'', s)
         else (case fit (map (\<lambda>r. (FEATURES r, y r)) (rows (s ! train_df))) of
                 Inl e \<Rightarrow> (Inl e, s)
               | Inr model \<Rightarrow> (Inr (model, encoders), s)))"

text \<open>
  One step of the recursive forecast on the object \<open>df\<close>. The feature creator and the
  encoder return new objects; the future row is a copy of the last row; \<open>pd.concat\<close>
  returns a new object, which becomes \<open>df\<close>. The store keeps what was allocated before
  an exception.
\<close>

definition forecast_step_st ::
  "xgb_model \<Rightarrow> (nat \<Rightarrow> data_frame store \<Rightarrow> nat \<times> data_frame store) \<Rightarrow> encoders \<Rightarrow> nat
     \<Rightarrow> data_frame store \<Rightarrow> (exn + (nat \<times> real)) \<times> data_frame store" where
  "forecast_step_st model feature_creator encoders df s =
     (let (df, s) = feature_creator df s;
          ((df, _), s) = encode_categorical_features_st df (Some encoders) s
      in case rows (s ! df) of
           [] \<Rightarrow> (Inl ''index 0 is out of bounds for axis 0 with size 0'', s)
         | _ \<Rightarrow>
           (let last_row = last (rows (s ! df))
            in case model (FEATURES last_row) of
                 Inl e \<Rightarrow> (Inl e, s)
               | Inr pred_log \<Rightarrow>
                   (let pred = max (expm1 pred_log) 0;
                        next_row = last_row\<lparr>date := add_days 7 (date last_row),
                                            qty_for_forecast := pred, y := pred_log\<rparr>;
                        (df, s) = alloc ((s ! df)\<lparr>rows := rows (s ! df) @ [next_row]\<rparr>) s
                    in (Inr (df, pred), s))))"

function forecast_loop_st ::
  "xgb_model \<Rightarrow> (nat \<Rightarrow> data_frame store \<Rightarrow> nat \<times> data_frame store) \<Rightarrow> encoders \<Rightarrow> nat \<Rightarrow> nat
     \<Rightarrow> nat \<Rightarrow> real list \<Rightarrow> data_frame store \<Rightarrow> real list \<times> data_frame store" where
  "forecast_loop_st model feature_creator encoders horizon step df forecasts s =
     (if step < horizon then
        (case forecast_step_st model feature_creator encoders df s of
           (Inl e, s') \<Rightarrow> (forecasts @ replicate (horizon - step) 0, s')
         | (Inr (df', pred), s') \<Rightarrow>
             forecast_loop_st model feature_creator encoders horizon (Suc step) df'
               (forecasts @ [pred]) s')
      else (forecasts, s))"
  by pat_completeness auto
termination
  by (relation "measure (\<lambda>(model, feature_creator, encoders, horizon, step, df, forecasts, s).
        horizon - step)") auto

text \<open>
  \<open>xgboost_recursive_forecast\<close> on the object \<open>product_df\<close>: the copy is a new object and
  receives the log target; the loop works on it and on the objects it creates.
\<close>

definition xgboost_recursive_forecast_st ::
  "xgb_model \<Rightarrow> nat \<Rightarrow> nat \<Rightarrow> (nat \<Rightarrow> data_frame store \<Rightarrow> nat \<times> data_frame store) \<Rightarrow> encoders
     \<Rightarrow> data_frame store \<Rightarrow> real list \<times> data_frame store" where
  "xgboost_recursive_forecast_st model product_df horizon feature_creator encoders s =
     (let (df, s) = alloc (s ! product_df) s;
          s = modify df (\<lambda>df. df\<lparr>y_column := True\<rparr>)
                (set_column df (\<lambda>r v. r\<lparr>y := v\<rparr>) (map (\<lambda>r. log1p (qty_for_forecast r))) s)
      in forecast_loop_st model feature_creator encoders horizon 0 df [] s)"

section \<open>Calendar mapper: properties\<close>


lemma days_in_month_ge_28: "28 \<le> days_in_month yr m"
  by (simp add: days_in_month_def)








section \<open>Timestamps: properties\<close>

lemma div_step:
  fixes yr k :: int
  assumes "0 < k"
  shows "yr div k = (yr - 1) div k + (if yr mod k = 0 then 1 else 0)"
proof (cases "yr mod k = 0")
  case True
  have "yr = k * (yr div k) + yr mod k" by simp
  with True have "yr = k * (yr div k)" by simp
  then have "yr - 1 = k * (yr div k - 1) + (k - 1)"
    by (simp add: algebra_simps)
  from int_div_pos_eq [OF this] assms have "(yr - 1) div k = yr div k - 1"
    by simp
  with True show ?thesis by simp
next
  case False
  have e: "yr - 1 = k * (yr div k) + (yr mod k - 1)"
    by simp
  have "0 \<le> yr mod k" "yr mod k < k"
    using assms by simp_all
  with False have "0 \<le> yr mod k - 1" "yr mod k - 1 < k"
    by simp_all
  from int_div_pos_eq [OF e this] have "(yr - 1) div k = yr div k" .
  with False show ?thesis by simp
qed

lemma mod_400_100: "(yr::int) mod 400 = 0 \<Longrightarrow> yr mod 100 = 0"
  using mod_mod_cancel [of 100 400 yr] by simp

lemma mod_100_4: "(yr::int) mod 100 = 0 \<Longrightarrow> yr mod 4 = 0"
  using mod_mod_cancel [of 4 100 yr] by simp


lemma year_step_arith:
  fixes yr a b c a' b' c' :: int and p4 p100 p400 :: bool
  assumes "a' = a + (if p4 then 1 else 0)" "b' = b + (if p100 then 1 else 0)"
    "c' = c + (if p400 then 1 else 0)" "p400 \<longrightarrow> p100" "p100 \<longrightarrow> p4"
  shows "yr * 365 + a' - b' + c' =
     (yr - 1) * 365 + a - b + c + (if p4 \<and> (\<not> p100 \<or> p400) then 366 else 365)"
  using assms by (cases p4; cases p100; cases p400) simp_all

lemma days_before_year_Suc:
  "days_before_year (yr + 1) = days_before_year yr + (if is_leap yr then 366 else 365)"
proof -
  have l: "days_before_year (yr + 1) = yr * 365 + yr div 4 - yr div 100 + yr div 400"
    by (simp only: days_before_year_def add_diff_cancel_right')
  have r: "days_before_year yr = (yr - 1) * 365 + (yr - 1) div 4 - (yr - 1) div 100 + (yr - 1) div 400"
    by (simp only: days_before_year_def)
  have "yr * 365 + yr div 4 - yr div 100 + yr div 400 =
     (yr - 1) * 365 + (yr - 1) div 4 - (yr - 1) div 100 + (yr - 1) div 400
       + (if yr mod 4 = 0 \<and> (\<not> yr mod 100 = 0 \<or> yr mod 400 = 0) then 366 else 365)"
  proof (rule year_step_arith)
    show "yr div 4 = (yr - 1) div 4 + (if yr mod 4 = 0 then 1 else 0)"
      by (rule div_step) simp
    show "yr div 100 = (yr - 1) div 100 + (if yr mod 100 = 0 then 1 else 0)"
      by (rule div_step) simp
    show "yr div 400 = (yr - 1) div 400 + (if yr mod 400 = 0 then 1 else 0)"
      by (rule div_step) simp
    show "yr mod 400 = 0 \<longrightarrow> yr mod 100 = 0"
      by (rule impI) (rule mod_400_100)
    show "yr mod 100 = 0 \<longrightarrow> yr mod 4 = 0"
      by (rule impI) (rule mod_100_4)
  qed
  then show ?thesis
    by (simp only: l r is_leap_def)
qed


lemma days_before_month_Suc:
  assumes "1 \<le> m" "m < 12"
  shows "days_before_month yr (m + 1) = days_before_month yr m + days_in_month yr m"
proof -
  from assms have "m = 1 \<or> m = 2 \<or> m = 3 \<or> m = 4 \<or> m = 5 \<or> m = 6 \<or> m = 7 \<or> m = 8 \<or> m = 9
      \<or> m = 10 \<or> m = 11"
    by arith
  then show ?thesis
    by (elim disjE) (simp_all add: days_before_month_def days_in_month_def)
qed

lemma days_before_month_12:
  "days_before_month yr 12 + days_in_month yr 12 = (if is_leap yr then 366 else 365)"
  by (simp add: days_before_month_def days_in_month_def)

lemma ordinal_next_day:
  assumes "calendar_date t"
  shows "ordinal (next_day t) = ordinal t + 1"
proof (cases "ts_day t < days_in_month (ts_year t) (ts_month t)")
  case True
  then show ?thesis by (simp add: next_day_def ordinal_def)
next
  case False
  with assms have d: "ts_day t = days_in_month (ts_year t) (ts_month t)"
    by (simp add: calendar_date_def)
  show ?thesis
  proof (cases "ts_month t < 12")
    case True
    with assms have "days_before_month (ts_year t) (ts_month t + 1) =
        days_before_month (ts_year t) (ts_month t) + days_in_month (ts_year t) (ts_month t)"
      by (intro days_before_month_Suc) (simp_all add: calendar_date_def)
    with True False d show ?thesis
      by (simp add: next_day_def ordinal_def)
  next
    case False
    with assms have m: "ts_month t = 12" by (simp add: calendar_date_def)
    have "days_before_month (ts_year t + 1) 1 = 0" by (simp add: days_before_month_def)
    with m d days_before_year_Suc [of "ts_year t"] days_before_month_12 [of "ts_year t"]
    show ?thesis
      by (simp add: next_day_def ordinal_def)
  qed
qed

lemma calendar_date_next_day:
  assumes "calendar_date t"
  shows "calendar_date (next_day t)"
  using assms days_in_month_ge_28 [of "ts_year t" "ts_month t + 1"]
    days_in_month_ge_28 [of "ts_year t + 1" 1]
  by (auto simp: calendar_date_def next_day_def)

lemma add_days_props:
  "calendar_date t \<Longrightarrow> calendar_date (add_days n t) \<and> ordinal (add_days n t) = ordinal t + int n"
  by (induction n arbitrary: t) (simp_all add: ordinal_next_day calendar_date_next_day)

lemma weekday_range: "0 \<le> weekday t \<and> weekday t \<le> 6"
  by (simp add: weekday_def)

section \<open>Weekly aggregator: properties\<close>

lemma filter_key_assign_row_qty:
  "filter (\<lambda>r. group_key r = k) (assign_row_qty df) =
     assign_row_qty (filter (\<lambda>r. group_key r = k) df)"
  by (induction df) (simp_all add: assign_row_qty_def group_key_def)

lemma map_group_key_assign_row_qty: "map group_key (assign_row_qty df) = map group_key df"
  by (simp add: assign_row_qty_def group_key_def)

lemma map_row_qty_assign:
  "map row_qty (assign_row_qty df) =
     map (\<lambda>r. row_max (total_qty_invoiced r) (total_qty_delivered r)) df"
  by (simp add: assign_row_qty_def)

lemma filter_eq_distinct:
  "distinct ks \<Longrightarrow> k \<in> set ks \<Longrightarrow> filter (\<lambda>k'. k' = k) ks = [k]"
  by (induction ks) (auto simp: filter_empty_conv)

lemma groupby_sum_group:
  assumes "k \<in> set (map group_key df)"
  shows "\<exists>w. filter (\<lambda>w. group_key w = k) (groupby_sum df) = [w]
     \<and> group_key w = k
     \<and> qty_for_forecast w = nansum (map row_qty (filter (\<lambda>r. group_key r = k) df))"
proof -
  let ?f = "\<lambda>k. case k of (yr, m, w, p, u, s) \<Rightarrow>
            \<lparr>year = yr, month = m, week_month = w, product_name = p, product_uom = u,
             sales_type = s,
             qty_for_forecast = nansum (map row_qty (filter (\<lambda>r. group_key r = k) df))\<rparr>"
  let ?ks = "sort (remdups (map group_key df))"
  have key: "group_key (?f k') = k'" for k'
    by (cases k') (simp add: group_key_def)
  have "filter (\<lambda>w. group_key w = k) (map ?f ?ks) = map ?f (filter (\<lambda>k'. k' = k) ?ks)"
    unfolding filter_map o_def key ..
  moreover have "filter (\<lambda>k'. k' = k) ?ks = [k]"
    using assms by (intro filter_eq_distinct) auto
  moreover have "qty_for_forecast (?f k) = nansum (map row_qty (filter (\<lambda>r. group_key r = k) df))"
    by (cases k) simp
  ultimately show ?thesis
    unfolding groupby_sum_def using key by auto
qed

lemma rice_kept: "lower ''rice'' \<notin> set ATTRIBUTE_ONLY_PRODUCTS"
  by (simp add: lower_def lower_char_def ATTRIBUTE_ONLY_PRODUCTS_def)

lemma contributing_two_sided_rows:
  "contributing two_sided_rows True (2024, 1, 1, ''rice'', ''kg'', ''b2c'') = two_sided_rows"
  by (simp add: contributing_def filter_attribute_def two_sided_rows_def rice_kept group_key_def)

text \<open>
  C1, as stated: the output quantity of a key is max(sum of invoiced, sum of delivered).
  On the code this is false: for the two rows (invoiced 5, delivered 0) and (invoiced 0,
  delivered 5) of one key the output is 10, while the max of the two sums is 5.
\<close>

theorem build_weekly_timeseries_counterexample:
  "map qty_for_forecast (build_weekly_timeseries two_sided_rows True) = [10]
   \<and> max (nansum (map total_qty_invoiced
             (contributing two_sided_rows True (2024, 1, 1, ''rice'', ''kg'', ''b2c''))))
          (nansum (map total_qty_delivered
             (contributing two_sided_rows True (2024, 1, 1, ''rice'', ''kg'', ''b2c'')))) = 5"
proof -
  have "map qty_for_forecast (build_weekly_timeseries two_sided_rows True) = [10]"
    by (simp add: build_weekly_timeseries_def filter_attribute_def assign_row_qty_def
        groupby_sum_def two_sided_rows_def rice_kept group_key_def nansum_def)
  moreover have "nansum (map total_qty_invoiced two_sided_rows) = 5"
    by (simp add: two_sided_rows_def nansum_def)
  moreover have "nansum (map total_qty_delivered two_sided_rows) = 5"
    by (simp add: two_sided_rows_def nansum_def)
  ultimately show ?thesis
    by (simp add: contributing_two_sided_rows)
qed

text \<open>
  C1, amended: for every input table and every aggregation key that at least one kept
  row carries, \<open>build_weekly_timeseries\<close> outputs exactly one row for the key, and its
  \<open>qty_for_forecast\<close> is the sum, over the contributing rows, of the per-row maximum of
  \<open>total_qty_invoiced\<close> and \<open>total_qty_delivered\<close>: the sum of the per-row maxima, not
  the max of the two sums.
\<close>

theorem build_weekly_timeseries_sum_of_row_max:
  assumes "contributing df filter_attribute_products k \<noteq> []"
  shows "\<exists>w. filter (\<lambda>w. group_key w = k) (build_weekly_timeseries df filter_attribute_products) = [w]
     \<and> qty_for_forecast w =
        nansum (map (\<lambda>r. row_max (total_qty_invoiced r) (total_qty_delivered r))
          (contributing df filter_attribute_products k))"
proof -
  define kept where "kept = (if filter_attribute_products then filter_attribute df else df)"
  have "filter (\<lambda>r. group_key r = k) kept \<noteq> []"
    using assms by (simp add: contributing_def kept_def)
  then have "k \<in> set (map group_key (assign_row_qty kept))"
    by (auto simp: map_group_key_assign_row_qty filter_empty_conv)
  from groupby_sum_group [OF this] obtain w where
    "filter (\<lambda>w. group_key w = k) (groupby_sum (assign_row_qty kept)) = [w]"
    "qty_for_forecast w =
       nansum (map row_qty (filter (\<lambda>r. group_key r = k) (assign_row_qty kept)))"
    by blast
  moreover have "build_weekly_timeseries df filter_attribute_products = groupby_sum (assign_row_qty kept)"
    by (simp add: build_weekly_timeseries_def kept_def)
  moreover have "contributing df filter_attribute_products k = filter (\<lambda>r. group_key r = k) kept"
    by (simp add: contributing_def kept_def)
  ultimately show ?thesis
    by (simp add: filter_key_assign_row_qty map_row_qty_assign)
qed

theorem build_weekly_timeseries_sum_of_row_max_witness:
  "contributing two_sided_rows True (2024, 1, 1, ''rice'', ''kg'', ''b2c'') \<noteq> []
   \<and> (\<exists>w. filter (\<lambda>w. group_key w = (2024, 1, 1, ''rice'', ''kg'', ''b2c''))
             (build_weekly_timeseries two_sided_rows True) = [w]
        \<and> qty_for_forecast w = 10)"
proof -
  have ne: "contributing two_sided_rows True (2024, 1, 1, ''rice'', ''kg'', ''b2c'') \<noteq> []"
    unfolding contributing_two_sided_rows by (simp add: two_sided_rows_def)
  have "nansum (map (\<lambda>r. row_max (total_qty_invoiced r) (total_qty_delivered r)) two_sided_rows) = 10"
    by (simp add: two_sided_rows_def nansum_def)
  with build_weekly_timeseries_sum_of_row_max [OF ne] ne show ?thesis
    by (simp add: contributing_two_sided_rows)
qed

section \<open>Feature builder: properties\<close>

lemma length_assign [simp]: "length (assign upd col ts) = min (length ts) (length col)"
  by (simp add: assign_def)

lemma length_shift_from [simp]: "length (shift_from k seen ps) = length ps"
  by (induction k seen ps rule: shift_from.induct) (simp_all add: Let_def)

lemma length_groupby_shift [simp]: "length (groupby_shift k ts) = length ts"
  by (simp add: groupby_shift_def)

lemma length_rolling_from [simp]: "length (rolling_from w agg seen col) = length col"
  by (induction col arbitrary: seen) (simp_all add: Let_def)

lemma length_rolling [simp]: "length (rolling w agg col) = length col"
  by (simp add: rolling_def)

lemma map_assign_other:
  "(\<And>r v. f (upd r v) = f r) \<Longrightarrow> length col = length ts \<Longrightarrow>
     map f (assign upd col ts) = map f ts"
  by (induction ts arbitrary: col) (auto simp: assign_def length_Suc_conv)

lemma map_assign_same:
  "(\<And>r v. f (upd r v) = v) \<Longrightarrow> length col = length ts \<Longrightarrow>
     map f (assign upd col ts) = col"
  by (induction ts arbitrary: col) (auto simp: assign_def length_Suc_conv)

lemma groupby_shift_assign:
  assumes "\<And>r v. group_cols (upd r v) = group_cols r" and "\<And>r v. y (upd r v) = y r"
    and "length col = length ts"
  shows "groupby_shift k (assign upd col ts) = groupby_shift k ts"
proof -
  have "map (\<lambda>r. (group_cols r, y r)) (assign upd col ts) = map (\<lambda>r. (group_cols r, y r)) ts"
    by (rule map_assign_other) (simp_all add: assms)
  then show ?thesis by (simp add: groupby_shift_def)
qed

lemma length_sorted_with_y [simp]: "length (sorted_with_y df) = length (rows df)"
  by (simp add: sorted_with_y_def sort_values_name_uom_date_def Let_def)

lemma length_create_xgboost_features [simp]:
  "length (rows (create_xgboost_features df)) = length (rows df)"
  by (simp add: create_xgboost_features_def Let_def)

lemma lag_1_column:
  "map lag_1 (rows (create_xgboost_features df)) = groupby_shift 1 (sorted_with_y df)"
  unfolding create_xgboost_features_def Let_def
  by (simp add: map_assign_other map_assign_same groupby_shift_assign group_cols_def)

lemma roll_mean_4_column:
  "map roll_mean_4 (rows (create_xgboost_features df)) =
     rolling 4 mean (groupby_shift 1 (sorted_with_y df))"
  unfolding create_xgboost_features_def Let_def
  by (simp add: map_assign_other map_assign_same groupby_shift_assign group_cols_def)

lemma group_cols_column:
  "map group_cols (rows (create_xgboost_features df)) = map group_cols (sorted_with_y df)"
  unfolding create_xgboost_features_def Let_def
  by (simp add: map_assign_other group_cols_def)

lemma y_column_values:
  "map y (rows (create_xgboost_features df)) = map y (sorted_with_y df)"
  unfolding create_xgboost_features_def Let_def
  by (simp add: map_assign_other)

lemma sorted_two_channel_frame:
  "sort_values_name_uom_date (rows two_channel_frame) = rows two_channel_frame"
  by (simp add: sort_values_name_uom_date_def two_channel_frame_def weekly_row_def ordinal_def
      days_before_year_def days_before_month_def is_leap_def)

lemma group_y_two_channel_frame:
  "map (\<lambda>r. (group_cols r, y r)) (sorted_with_y two_channel_frame) =
     [((''rice'', ''kg'', ''b2c''), log1p 10), ((''rice'', ''kg'', ''B2C''), log1p 100),
      ((''rice'', ''kg'', ''b2c''), log1p 20), ((''rice'', ''kg'', ''B2C''), log1p 200),
      ((''rice'', ''kg'', ''b2c''), log1p 30), ((''rice'', ''kg'', ''B2C''), log1p 300)]"
  unfolding sorted_with_y_def sorted_two_channel_frame Let_def
  by (simp add: two_channel_frame_def assign_def weekly_row_def group_cols_def)

lemma shifted_two_channel_frame:
  "groupby_shift 1 (sorted_with_y two_channel_frame) =
     [None, None, Some (log1p 10), Some (log1p 100), Some (log1p 20), Some (log1p 200)]"
  unfolding groupby_shift_def group_y_two_channel_frame
  by simp

text \<open>
  C2 on the code, at a table where one (product, unit) pair is sold through two channels
  in alternating weeks. The rows come out in date order, channels interleaved. The lag
  follows the channel: the third \<open>B2C\<close> row (position 5) gets the \<open>y\<close> of the second.
  The rolling mean does not: \<open>rolling(4)\<close> runs over the whole shifted column, so at that
  row, which has two earlier rows of its own channel where the claim requires a null
  until four exist, \<open>roll_mean_4\<close> is the mean of four values, two of them the \<open>y\<close> of
  the other channel \<open>b2c\<close>.
\<close>

theorem create_xgboost_features_rolling_crosses_channels:
  "map group_cols (rows (create_xgboost_features two_channel_frame)) =
     [(''rice'', ''kg'', ''b2c''), (''rice'', ''kg'', ''B2C''), (''rice'', ''kg'', ''b2c''),
      (''rice'', ''kg'', ''B2C''), (''rice'', ''kg'', ''b2c''), (''rice'', ''kg'', ''B2C'')]
   \<and> map lag_1 (rows (create_xgboost_features two_channel_frame)) =
     [None, None, Some (log1p 10), Some (log1p 100), Some (log1p 20), Some (log1p 200)]
   \<and> map roll_mean_4 (rows (create_xgboost_features two_channel_frame)) =
     [None, None, None, None, None,
      Some ((log1p 10 + log1p 100 + log1p 20 + log1p 200) / 4)]"
proof -
  have "map group_cols (sorted_with_y two_channel_frame) =
     [(''rice'', ''kg'', ''b2c''), (''rice'', ''kg'', ''B2C''), (''rice'', ''kg'', ''b2c''),
      (''rice'', ''kg'', ''B2C''), (''rice'', ''kg'', ''b2c''), (''rice'', ''kg'', ''B2C'')]"
    using arg_cong [OF group_y_two_channel_frame, of "map fst"] by (simp add: o_def)
  moreover have "rolling 4 mean
      [None, None, Some (log1p 10), Some (log1p 100), Some (log1p 20), Some (log1p 200)] =
     [None, None, None, None, None,
      Some ((log1p 10 + log1p 100 + log1p 20 + log1p 200) / 4)]"
    by (simp add: rolling_def mean_def)
  ultimately show ?thesis
    unfolding group_cols_column lag_1_column roll_mean_4_column shifted_two_channel_frame
    by simp
qed

section \<open>Recursive forecast: properties\<close>

declare forecast_loop.simps [simp del]

lemma length_forecast_loop:
  "length (forecast_loop model fc enc horizon step df forecasts) = length forecasts + (horizon - step)"
proof (induction model fc enc horizon step df forecasts rule: forecast_loop.induct)
  case (1 model fc enc horizon step df forecasts)
  show ?case
  proof (cases "step < horizon")
    case False
    then show ?thesis by (simp add: forecast_loop.simps [of _ _ _ horizon step])
  next
    case True
    show ?thesis
    proof (cases "forecast_step model fc enc df")
      case (Inl e)
      with True show ?thesis by (simp add: forecast_loop.simps [of _ _ _ horizon step])
    next
      case (Inr p)
      obtain df' pred where p: "p = (df', pred)" by (cases p)
      from "1.IH" [OF True Inr p [symmetric] ] True Inr p show ?thesis
        by (simp add: forecast_loop.simps [of _ _ _ horizon step])
    qed
  qed
qed

lemma length_steps_done:
  "steps_done model fc enc n df = Inr (df', preds) \<Longrightarrow> length preds = n"
  by (induction n arbitrary: df' preds) (auto split: sum.splits prod.splits)

lemma forecast_loop_after_steps:
  "steps_done model fc enc n df = Inr (df', preds) \<Longrightarrow> n \<le> horizon \<Longrightarrow>
     forecast_loop model fc enc horizon 0 df [] = forecast_loop model fc enc horizon n df' preds"
proof (induction n arbitrary: df' preds)
  case 0
  then show ?case by simp
next
  case (Suc n)
  from Suc.prems(1) obtain df1 p1 pred where
    s: "steps_done model fc enc n df = Inr (df1, p1)"
    and f: "forecast_step model fc enc df1 = Inr (df', pred)"
    and p: "preds = p1 @ [pred]"
    by (auto split: sum.splits prod.splits)
  from Suc.IH [OF s] Suc.prems(2)
  have "forecast_loop model fc enc horizon 0 df [] = forecast_loop model fc enc horizon n df1 p1"
    by simp
  also have "\<dots> = forecast_loop model fc enc horizon (Suc n) df' preds"
    using Suc.prems(2) f p by (simp add: forecast_loop.simps [of _ _ _ horizon n])
  finally show ?case .
qed

lemma forecast_loop_failure:
  assumes "1 \<le> s" "s \<le> horizon"
    and "steps_done model fc enc (s - 1) df = Inr (df', preds)"
    and "forecast_step model fc enc df' = Inl e"
  shows "forecast_loop model fc enc horizon 0 df [] = preds @ replicate (horizon - s + 1) 0"
proof -
  have "forecast_loop model fc enc horizon 0 df [] = forecast_loop model fc enc horizon (s - 1) df' preds"
    using assms by (intro forecast_loop_after_steps) auto
  also have "\<dots> = preds @ replicate (horizon - (s - 1)) 0"
    using assms by (subst forecast_loop.simps) auto
  also have "horizon - (s - 1) = horizon - s + 1"
    using assms by simp
  finally show ?thesis .
qed

section \<open>Forecast selector: properties\<close>

lemma length_date_range_W_SUN [simp]: "length (date_range_W_SUN today n) = n"
  by (simp add: date_range_W_SUN_def Let_def)

lemma table_rows_columns:
  fixes name uom st :: string and tag :: method_tag
  assumes "length ds = length ws" and "length ws = length vs"
  defines "tbl \<equiv> map2 (\<lambda>(d, w) v.
                  \<lparr>year = ts_year d, month = ts_month d, week_month = w,
                   product_name = name, product_uom = uom, sales_type = st,
                   forecast_date = d, forecast_qty = v, forecast_method = tag\<rparr>)
                (zip ds ws) vs"
  shows "length tbl = length ds \<and> map forecast_date tbl = ds \<and> map forecast_qty tbl = vs
     \<and> map forecast_method tbl = replicate (length ds) tag
     \<and> map year tbl = map ts_year ds \<and> map month tbl = map ts_month ds
     \<and> map week_month tbl = ws
     \<and> map group_cols tbl = replicate (length ds) (name, uom, st)"
  using assms(1,2) unfolding tbl_def
  by (induction ds ws vs rule: list_induct3) (simp_all add: group_cols_def)

lemma forecast_table_columns:
  assumes "length forecast_values = length future_dates"
  shows "\<exists>tbl. forecast_table name uom stype tag future_dates forecast_values = Inr tbl
     \<and> length tbl = length future_dates
     \<and> map forecast_date tbl = future_dates
     \<and> map forecast_qty tbl = forecast_values
     \<and> map forecast_method tbl = replicate (length future_dates) tag
     \<and> map year tbl = map ts_year future_dates
     \<and> map month tbl = map ts_month future_dates
     \<and> map week_month tbl = week_month_from_date future_dates"
proof -
  define tbl where "tbl = map2 (\<lambda>(d, w) v.
                  \<lparr>year = ts_year d, month = ts_month d, week_month = w,
                   product_name = name, product_uom = uom,
                   sales_type = (if truthy stype then the stype else ''ALL''),
                   forecast_date = d, forecast_qty = v, forecast_method = tag\<rparr>)
                (zip future_dates (week_month_from_date future_dates)) forecast_values"
  have l1: "length future_dates = length (week_month_from_date future_dates)"
    by (simp add: week_month_from_date_def)
  have l2: "length (week_month_from_date future_dates) = length forecast_values"
    using assms l1 by simp
  have "forecast_table name uom stype tag future_dates forecast_values = Inr tbl"
    using assms by (simp add: forecast_table_def tbl_def)
  moreover note table_rows_columns [OF l1 l2, of name uom
      "if truthy stype then the stype else ''ALL''" tag, folded tbl_def]
  ultimately show ?thesis by blast
qed


lemma length_rolling_mean_forecast [simp]:
  "length (rolling_mean_forecast series horizon window) = horizon"
  by (simp add: rolling_mean_forecast_def Let_def)

lemma length_naive_forecast [simp]: "length (naive_forecast series horizon) = horizon"
  by (simp add: naive_forecast_def Let_def)

lemma length_exponential_smoothing_forecast [simp]:
  "length (exponential_smoothing_forecast series horizon alpha) = horizon"
  by (simp add: exponential_smoothing_forecast_def Let_def split: list.splits)

lemma length_adaptive_heuristic [simp]:
  "length (fst (adaptive_heuristic series)) = FORECAST_HORIZON"
  by (simp add: adaptive_heuristic_def Let_def)

lemma xgboost_recursive_forecast_Inr:
  "xgboost_recursive_forecast model product_df horizon fc enc =
     Inr (forecast_loop model fc enc horizon 0 (log_target_copy product_df) [])"
  by (simp add: xgboost_recursive_forecast_def)

lemma length_select_forecast [simp]:
  "length (fst (select_forecast today ts model enc product_df)) = FORECAST_HORIZON"
  by (simp add: select_forecast_def Let_def xgboost_recursive_forecast_Inr length_forecast_loop)

lemma forecast_single_product_table:
  assumes "product_rows ts name uom stype \<noteq> []"
  shows "\<exists>tbl. forecast_single_product today ts model enc name uom stype = Inr tbl
     \<and> length tbl = FORECAST_HORIZON
     \<and> map forecast_date tbl = date_range_W_SUN today FORECAST_HORIZON
     \<and> map forecast_qty tbl = fst (select_forecast today ts model enc (product_rows ts name uom stype))
     \<and> map forecast_method tbl =
         replicate FORECAST_HORIZON (snd (select_forecast today ts model enc (product_rows ts name uom stype)))
     \<and> map year tbl = map ts_year (date_range_W_SUN today FORECAST_HORIZON)
     \<and> map month tbl = map ts_month (date_range_W_SUN today FORECAST_HORIZON)
     \<and> map week_month tbl = week_month_from_date (date_range_W_SUN today FORECAST_HORIZON)"
proof -
  let ?sel = "select_forecast today ts model enc (product_rows ts name uom stype)"
  have len: "length (fst ?sel) = length (date_range_W_SUN today FORECAST_HORIZON)"
    by simp
  have "forecast_single_product today ts model enc name uom stype =
      forecast_table name uom stype (snd ?sel) (date_range_W_SUN today FORECAST_HORIZON) (fst ?sel)"
    using assms by (simp add: forecast_single_product_def Let_def case_prod_beta)
  with forecast_table_columns [OF len, of name uom stype "snd ?sel"] show ?thesis
    by simp
qed

lemma select_forecast_inactive:
  "inactive (gap_weeks today product_df) \<Longrightarrow>
     select_forecast today ts model enc product_df = (replicate FORECAST_HORIZON 0, ZERO_INACTIVE)"
  by (simp add: select_forecast_def)

lemma select_forecast_xgboost:
  "\<not> inactive (gap_weeks today product_df) \<Longrightarrow> MIN_XGBOOST_ROWS \<le> fully_lagged product_df \<Longrightarrow>
     select_forecast today ts model enc product_df =
       (forecast_loop model create_xgboost_features enc FORECAST_HORIZON 0
          (log_target_copy \<lparr>y_column = y_column ts, rows = product_df\<rparr>) [], XGBOOST_RECURSIVE)"
  by (simp add: select_forecast_def xgboost_recursive_forecast_Inr)

lemma select_forecast_heuristic:
  "\<not> inactive (gap_weeks today product_df) \<Longrightarrow> \<not> MIN_XGBOOST_ROWS \<le> fully_lagged product_df \<Longrightarrow>
     select_forecast today ts model enc product_df = adaptive_heuristic (map qty_for_forecast product_df)"
  by (simp add: select_forecast_def)

lemma nth_date_range_W_SUN:
  assumes "i < n"
  shows "date_range_W_SUN today n ! i =
     add_days (7 * i) (add_days (nat ((6 - weekday today) mod 7)) today)"
  using assms by (simp add: date_range_W_SUN_def Let_def)

lemma first_sunday:
  assumes "calendar_date today"
  defines "first \<equiv> add_days (nat ((6 - weekday today) mod 7)) today"
  shows "calendar_date first" and "weekday first = 6"
    and "ordinal today \<le> ordinal first" and "ordinal first < ordinal today + 7"
proof -
  have o: "ordinal first = ordinal today + (6 - weekday today) mod 7"
    and c: "calendar_date first"
    using add_days_props [OF assms(1), of "nat ((6 - weekday today) mod 7)"]
    by (simp_all add: first_def)
  show "calendar_date first" by (rule c)
  show "weekday first = 6"
    unfolding weekday_def o by presburger
  show "ordinal today \<le> ordinal first" "ordinal first < ordinal today + 7"
    unfolding o by simp_all
qed

lemma later_sundays:
  assumes "calendar_date first" "weekday first = 6"
  shows "calendar_date (add_days (7 * i) first)"
    and "weekday (add_days (7 * i) first) = 6"
    and "ordinal (add_days (7 * i) first) = ordinal first + 7 * int i"
proof -
  have o: "ordinal (add_days (7 * i) first) = ordinal first + 7 * int i"
    and c: "calendar_date (add_days (7 * i) first)"
    using add_days_props [OF assms(1), of "7 * i"] by simp_all
  show "calendar_date (add_days (7 * i) first)" by (rule c)
  show "ordinal (add_days (7 * i) first) = ordinal first + 7 * int i" by (rule o)
  show "weekday (add_days (7 * i) first) = 6"
    using assms(2) unfolding weekday_def o by presburger
qed

section \<open>Example tables: evaluation\<close>

lemma add_days_7_jan_1:
  "add_days 7 \<lparr>ts_year = 2024, ts_month = 1, ts_day = 1\<rparr> = \<lparr>ts_year = 2024, ts_month = 1, ts_day = 8\<rparr>"
  by (simp add: eval_nat_numeral next_day_def days_in_month_def)

lemma first_step_succeeds:
  "forecast_step first_step_only_model create_xgboost_features no_encoders
     (log_target_copy single_row_frame) = Inr (after_first_step, 1)"
  by (simp add: forecast_step_def create_xgboost_features_def sorted_with_y_def
      sort_values_name_uom_date_def log_target_copy_def single_row_frame_def weekly_row_def
      assign_def groupby_shift_def rolling_def encode_categorical_features_def no_encoders_def
      encode_cell_def first_step_only_model_def FEATURES_def group_cols_def Let_def expm1_def
      after_first_step_def add_days_7_jan_1)

lemma second_step_raises:
  "forecast_step first_step_only_model create_xgboost_features no_encoders after_first_step
     = Inl ''boom''"
  by (simp add: forecast_step_def create_xgboost_features_def sorted_with_y_def
      sort_values_name_uom_date_def weekly_row_def
      assign_def groupby_shift_def rolling_def encode_categorical_features_def no_encoders_def
      encode_cell_def first_step_only_model_def FEATURES_def group_cols_def Let_def expm1_def
      after_first_step_def ordinal_def days_before_year_def days_before_month_def)


lemma product_rows_long_history_frame:
  "product_rows long_history_frame ''rice'' ''kg'' (Some ''b2c'') = rows long_history_frame"
  by (simp add: product_rows_def long_history_frame_def lagged_row_def weekly_row_def truthy_def
      ordinal_def days_before_year_def days_before_month_def is_leap_def Let_def)

lemma long_history_frame_nonempty: "rows long_history_frame \<noteq> []"
  by (simp add: long_history_frame_def)

lemma fully_lagged_long_history_frame: "fully_lagged (rows long_history_frame) = 10"
  by (simp add: fully_lagged_def long_history_frame_def lagged_row_def weekly_row_def)

lemma last_sale_long_history_frame:
  "max_date (map date (filter (\<lambda>r. qty_for_forecast r > 0) (rows long_history_frame))) =
     Some \<lparr>ts_year = 2024, ts_month = 1, ts_day = 8\<rparr>"
  by (simp add: max_date_def long_history_frame_def lagged_row_def weekly_row_def
      ordinal_def days_before_year_def days_before_month_def is_leap_def)

lemma gap_two_days_later:
  "gap_weeks \<lparr>ts_year = 2024, ts_month = 1, ts_day = 10\<rparr> (rows long_history_frame) = Some 0"
  unfolding gap_weeks_def last_sale_long_history_frame
  by (simp add: ordinal_def days_before_year_def days_before_month_def is_leap_def)

lemma gap_six_weeks_later:
  "gap_weeks \<lparr>ts_year = 2024, ts_month = 2, ts_day = 19\<rparr> (rows long_history_frame) = Some 6"
  unfolding gap_weeks_def last_sale_long_history_frame
  by (simp add: ordinal_def days_before_year_def days_before_month_def is_leap_def)

lemma forecast_step_failing_model:
  "\<exists>e. forecast_step failing_model fc enc df = Inl e"
  by (simp add: forecast_step_def failing_model_def Let_def case_prod_beta split: list.splits)

lemma product_rows_five_week_frame:
  "product_rows (five_week_frame q1 q2 q3 q4 q5) ''rice'' ''kg'' (Some ''b2c'') =
     rows (five_week_frame q1 q2 q3 q4 q5)"
  by (simp add: product_rows_def five_week_frame_def weekly_row_def truthy_def
      ordinal_def days_before_year_def days_before_month_def is_leap_def Let_def)

lemma product_series_five_week_frame:
  "product_series (five_week_frame q1 q2 q3 q4 q5) ''rice'' ''kg'' (Some ''b2c'') =
     [q1, q2, q3, q4, q5]"
  unfolding product_series_def product_rows_five_week_frame
  by (simp add: five_week_frame_def weekly_row_def)

lemma fully_lagged_five_week_frame:
  "fully_lagged (rows (five_week_frame q1 q2 q3 q4 q5)) = 0"
  by (simp add: fully_lagged_def five_week_frame_def weekly_row_def)

lemma gap_stable_frame:
  "gap_weeks \<lparr>ts_year = 2024, ts_month = 1, ts_day = 10\<rparr>
     (rows (five_week_frame 10 10 10 10 10)) = Some 0"
  by (simp add: gap_weeks_def max_date_def five_week_frame_def weekly_row_def
      ordinal_def days_before_year_def days_before_month_def is_leap_def Let_def)

lemma gap_volatile_frame:
  "gap_weeks \<lparr>ts_year = 2024, ts_month = 1, ts_day = 10\<rparr>
     (rows (five_week_frame 1 50 2 60 3)) = Some 0"
  by (simp add: gap_weeks_def max_date_def five_week_frame_def weekly_row_def
      ordinal_def days_before_year_def days_before_month_def is_leap_def Let_def)


lemma stable_series_facts:
  "sum_list [10, 10, 10, 10, 10 :: real] = 50" "mean [10, 10, 10, 10, 10] = 10"
  "std [10, 10, 10, 10, 10] = 0" "mean (diff [10, 10, 10, 10, 10]) = 0"
  by (simp_all add: mean_def std_def diff_def)

lemma volatile_series_facts:
  "sum_list [1, 50, 2, 60, 3 :: real] = 116" "mean [1, 50, 2, 60, 3] = 116 / 5"
  "std [1, 50, 2, 60, 3] = sqrt (8557 / 10)"
  by (simp_all add: mean_def std_def power2_eq_square)

lemma volatile_cv: "\<not> std [1, 50, 2, 60, 3] / mean [1, 50, 2, 60, 3] < 0.3"
proof -
  have "(7::real) \<le> sqrt (8557 / 10)"
    by (rule real_le_rsqrt) simp
  then show ?thesis
    by (simp add: volatile_series_facts)
qed

lemma product_rows_single_row_frame:
  "product_rows single_row_frame ''rice'' ''kg'' (Some ''b2c'') \<noteq> []"
  by (simp add: product_rows_def single_row_frame_def weekly_row_def truthy_def Let_def)

lemma weekday_jan_3: "weekday \<lparr>ts_year = 2024, ts_month = 1, ts_day = 3\<rparr> = 2"
  by (simp add: weekday_def ordinal_def days_before_year_def days_before_month_def)

lemma add_days_4_jan_3:
  "add_days 4 \<lparr>ts_year = 2024, ts_month = 1, ts_day = 3\<rparr> = \<lparr>ts_year = 2024, ts_month = 1, ts_day = 7\<rparr>"
  by (simp add: eval_nat_numeral next_day_def days_in_month_def)

lemma add_days_7_jan_7:
  "add_days 7 \<lparr>ts_year = 2024, ts_month = 1, ts_day = 7\<rparr> = \<lparr>ts_year = 2024, ts_month = 1, ts_day = 14\<rparr>"
  by (simp add: eval_nat_numeral next_day_def days_in_month_def)

lemma date_range_from_jan_3:
  "date_range_W_SUN \<lparr>ts_year = 2024, ts_month = 1, ts_day = 3\<rparr> FORECAST_HORIZON =
     [\<lparr>ts_year = 2024, ts_month = 1, ts_day = 7\<rparr>, \<lparr>ts_year = 2024, ts_month = 1, ts_day = 14\<rparr>]"
proof -
  have "[0..<FORECAST_HORIZON] = [0, 1]"
    by (simp add: FORECAST_HORIZON_def upt_conv_Cons)
  moreover have "nat ((6 - 2) mod 7) = 4" by simp
  ultimately show ?thesis
    unfolding date_range_W_SUN_def weekday_jan_3 Let_def
    by (simp add: add_days_4_jan_3 add_days_7_jan_7)
qed

text \<open>
  C3. For every horizon h and every step s with 1 \<le> s \<le> h: when the first s - 1 steps of the
  recursive forecast succeed with predictions \<open>preds\<close> and step s raises,
  \<open>xgboost_recursive_forecast\<close> returns, without raising, exactly h values: the s - 1
  predictions followed by h - s + 1 zeros. The selector, called in its model branch on
  such a group, returns these values and tags every row \<open>XGBOOST_RECURSIVE\<close>; it does
  not fall back to a heuristic.
\<close>

theorem recursive_forecast_zero_fills_after_failure:
  assumes "1 \<le> s" and "s \<le> horizon"
    and "steps_done model feature_creator encoders (s - 1) (log_target_copy product_df) = Inr (df', preds)"
    and "forecast_step model feature_creator encoders df' = Inl e"
  shows "xgboost_recursive_forecast model product_df horizon feature_creator encoders =
        Inr (preds @ replicate (horizon - s + 1) 0)
     \<and> length preds = s - 1
     \<and> length (preds @ replicate (horizon - s + 1) 0) = horizon
     \<and> (feature_creator = create_xgboost_features \<and> horizon = FORECAST_HORIZON
        \<and> product_df = \<lparr>y_column = y_column ts, rows = product_rows ts name uom stype\<rparr>
        \<and> product_rows ts name uom stype \<noteq> []
        \<and> \<not> inactive (gap_weeks today (product_rows ts name uom stype))
        \<and> MIN_XGBOOST_ROWS \<le> fully_lagged (product_rows ts name uom stype)
        \<longrightarrow> (\<exists>tbl. forecast_single_product today ts model encoders name uom stype = Inr tbl
              \<and> map forecast_qty tbl = preds @ replicate (horizon - s + 1) 0
              \<and> map forecast_method tbl = replicate FORECAST_HORIZON XGBOOST_RECURSIVE))"
proof -
  have loop: "forecast_loop model feature_creator encoders horizon 0 (log_target_copy product_df) [] =
      preds @ replicate (horizon - s + 1) 0"
    using assms by (rule forecast_loop_failure)
  have len: "length preds = s - 1"
    using assms(3) by (rule length_steps_done)
  have total: "length (preds @ replicate (horizon - s + 1) 0) = horizon"
    using len assms(1,2) by simp
  have sel: "\<exists>tbl. forecast_single_product today ts model encoders name uom stype = Inr tbl
              \<and> map forecast_qty tbl = preds @ replicate (horizon - s + 1) 0
              \<and> map forecast_method tbl = replicate FORECAST_HORIZON XGBOOST_RECURSIVE"
    if "feature_creator = create_xgboost_features" "horizon = FORECAST_HORIZON"
      "product_df = \<lparr>y_column = y_column ts, rows = product_rows ts name uom stype\<rparr>"
      "product_rows ts name uom stype \<noteq> []"
      "\<not> inactive (gap_weeks today (product_rows ts name uom stype))"
      "MIN_XGBOOST_ROWS \<le> fully_lagged (product_rows ts name uom stype)"
  proof -
    have "select_forecast today ts model encoders (product_rows ts name uom stype) =
        (preds @ replicate (horizon - s + 1) 0, XGBOOST_RECURSIVE)"
      using select_forecast_xgboost [OF that(5,6), of ts model encoders] loop that(1,2,3) by simp
    with forecast_single_product_table [OF that(4), of today model encoders] show ?thesis
      by auto
  qed
  show ?thesis
    using loop len total sel by (simp add: xgboost_recursive_forecast_Inr)
qed

theorem recursive_forecast_zero_fills_after_failure_witness:
  "xgboost_recursive_forecast first_step_only_model single_row_frame 4 create_xgboost_features
      no_encoders = Inr [1, 0, 0, 0]
   \<and> (\<exists>tbl. forecast_single_product \<lparr>ts_year = 2024, ts_month = 1, ts_day = 10\<rparr>
          long_history_frame failing_model no_encoders ''rice'' ''kg'' (Some ''b2c'') = Inr tbl
        \<and> map forecast_qty tbl = [0, 0]
        \<and> map forecast_method tbl = [XGBOOST_RECURSIVE, XGBOOST_RECURSIVE])"
proof -
  have a: "steps_done first_step_only_model create_xgboost_features no_encoders (2 - 1)
      (log_target_copy single_row_frame) = Inr (after_first_step, [1])"
    by (simp add: first_step_succeeds)
  have "xgboost_recursive_forecast first_step_only_model single_row_frame 4
      create_xgboost_features no_encoders = Inr ([1] @ replicate (4 - 2 + 1) 0)"
    using recursive_forecast_zero_fills_after_failure [OF _ _ a second_step_raises, of 4]
    by simp
  then have first: "xgboost_recursive_forecast first_step_only_model single_row_frame 4
      create_xgboost_features no_encoders = Inr [1, 0, 0, 0]"
    by (simp add: eval_nat_numeral)
  let ?df = "\<lparr>y_column = y_column long_history_frame,
      rows = product_rows long_history_frame ''rice'' ''kg'' (Some ''b2c'')\<rparr>"
  have b: "steps_done failing_model create_xgboost_features no_encoders (1 - 1)
      (log_target_copy ?df) = Inr (log_target_copy ?df, [])"
    by simp
  obtain e where c: "forecast_step failing_model create_xgboost_features no_encoders
      (log_target_copy ?df) = Inl e"
    using forecast_step_failing_model by blast
  have "\<not> inactive (gap_weeks \<lparr>ts_year = 2024, ts_month = 1, ts_day = 10\<rparr>
      (product_rows long_history_frame ''rice'' ''kg'' (Some ''b2c'')))"
    by (simp add: product_rows_long_history_frame gap_two_days_later inactive_def
        INACTIVE_GAP_WEEKS_def)
  moreover have "MIN_XGBOOST_ROWS \<le> fully_lagged (product_rows long_history_frame ''rice'' ''kg'' (Some ''b2c''))"
    by (simp add: product_rows_long_history_frame fully_lagged_long_history_frame
        MIN_XGBOOST_ROWS_def)
  moreover have "product_rows long_history_frame ''rice'' ''kg'' (Some ''b2c'') \<noteq> []"
    by (simp add: product_rows_long_history_frame long_history_frame_nonempty)
  ultimately have "\<exists>tbl. forecast_single_product \<lparr>ts_year = 2024, ts_month = 1, ts_day = 10\<rparr>
          long_history_frame failing_model no_encoders ''rice'' ''kg'' (Some ''b2c'') = Inr tbl
        \<and> map forecast_qty tbl = [] @ replicate (FORECAST_HORIZON - 1 + 1) 0
        \<and> map forecast_method tbl = replicate FORECAST_HORIZON XGBOOST_RECURSIVE"
    using recursive_forecast_zero_fills_after_failure [OF _ _ b c, of FORECAST_HORIZON
        long_history_frame "''rice''" "''kg''" "Some ''b2c''"
        "\<lparr>ts_year = 2024, ts_month = 1, ts_day = 10\<rparr>"]
    by (simp add: FORECAST_HORIZON_def)
  then have "\<exists>tbl. forecast_single_product \<lparr>ts_year = 2024, ts_month = 1, ts_day = 10\<rparr>
          long_history_frame failing_model no_encoders ''rice'' ''kg'' (Some ''b2c'') = Inr tbl
        \<and> map forecast_qty tbl = [0, 0]
        \<and> map forecast_method tbl = [XGBOOST_RECURSIVE, XGBOOST_RECURSIVE]"
    by (simp add: FORECAST_HORIZON_def eval_nat_numeral)
  with first show ?thesis by simp
qed

text \<open>
  C4. For every product group with at least one row whose gap, the whole weeks between
  today and the last date with a positive quantity (infinite when no row has one), is at
  least \<open>INACTIVE_GAP_WEEKS\<close>, \<open>forecast_single_product\<close> emits exactly
  \<open>FORECAST_HORIZON\<close> forecasts, all zero, all tagged \<open>ZERO_INACTIVE\<close>. Nothing is
  required of the rest of the history: the check comes first, also for a group with
  enough fully lagged rows for the model.
\<close>

theorem inactive_group_zero_forecast:
  assumes "product_rows ts name uom stype \<noteq> []"
    and "case gap_weeks today (product_rows ts name uom stype) of
           None \<Rightarrow> True
         | Some gap \<Rightarrow> INACTIVE_GAP_WEEKS \<le> gap"
  shows "\<exists>tbl. forecast_single_product today ts model encoders name uom stype = Inr tbl
     \<and> length tbl = FORECAST_HORIZON
     \<and> map forecast_qty tbl = replicate FORECAST_HORIZON 0
     \<and> map forecast_method tbl = replicate FORECAST_HORIZON ZERO_INACTIVE"
proof -
  from assms(2) have "inactive (gap_weeks today (product_rows ts name uom stype))"
    by (simp add: inactive_def)
  then have "select_forecast today ts model encoders (product_rows ts name uom stype) =
      (replicate FORECAST_HORIZON 0, ZERO_INACTIVE)"
    by (rule select_forecast_inactive)
  with forecast_single_product_table [OF assms(1), of today model encoders] show ?thesis
    by auto
qed

theorem inactive_group_zero_forecast_witness:
  "product_rows long_history_frame ''rice'' ''kg'' (Some ''b2c'') \<noteq> []
   \<and> gap_weeks \<lparr>ts_year = 2024, ts_month = 2, ts_day = 19\<rparr>
        (product_rows long_history_frame ''rice'' ''kg'' (Some ''b2c'')) = Some 6
   \<and> INACTIVE_GAP_WEEKS = 4
   \<and> MIN_XGBOOST_ROWS \<le> fully_lagged (product_rows long_history_frame ''rice'' ''kg'' (Some ''b2c''))
   \<and> (\<exists>tbl. forecast_single_product \<lparr>ts_year = 2024, ts_month = 2, ts_day = 19\<rparr>
          long_history_frame first_step_only_model no_encoders ''rice'' ''kg'' (Some ''b2c'') = Inr tbl
        \<and> map forecast_qty tbl = [0, 0]
        \<and> map forecast_method tbl = [ZERO_INACTIVE, ZERO_INACTIVE])"
proof -
  have ne: "product_rows long_history_frame ''rice'' ''kg'' (Some ''b2c'') \<noteq> []"
    by (simp add: product_rows_long_history_frame long_history_frame_nonempty)
  have gap: "gap_weeks \<lparr>ts_year = 2024, ts_month = 2, ts_day = 19\<rparr>
        (product_rows long_history_frame ''rice'' ''kg'' (Some ''b2c'')) = Some 6"
    by (simp add: product_rows_long_history_frame gap_six_weeks_later)
  have hyp: "case gap_weeks \<lparr>ts_year = 2024, ts_month = 2, ts_day = 19\<rparr>
        (product_rows long_history_frame ''rice'' ''kg'' (Some ''b2c'')) of
           None \<Rightarrow> True
         | Some gap \<Rightarrow> INACTIVE_GAP_WEEKS \<le> gap"
    by (simp add: gap INACTIVE_GAP_WEEKS_def)
  have lagged: "MIN_XGBOOST_ROWS \<le> fully_lagged (product_rows long_history_frame ''rice'' ''kg'' (Some ''b2c''))"
    by (simp add: product_rows_long_history_frame fully_lagged_long_history_frame
        MIN_XGBOOST_ROWS_def)
  from inactive_group_zero_forecast [OF ne hyp, of first_step_only_model no_encoders]
  have "\<exists>tbl. forecast_single_product \<lparr>ts_year = 2024, ts_month = 2, ts_day = 19\<rparr>
          long_history_frame first_step_only_model no_encoders ''rice'' ''kg'' (Some ''b2c'') = Inr tbl
        \<and> map forecast_qty tbl = [0, 0]
        \<and> map forecast_method tbl = [ZERO_INACTIVE, ZERO_INACTIVE]"
    by (auto simp: FORECAST_HORIZON_def eval_nat_numeral)
  with ne gap lagged show ?thesis
    by (simp add: INACTIVE_GAP_WEEKS_def)
qed

text \<open>
  C5. For every product group with at least one row that is not inactive and has fewer
  than \<open>MIN_XGBOOST_ROWS\<close> fully lagged rows, the selector tags the forecast
  \<open>HEURISTIC_ZERO\<close> (all values zero) when the series is empty or sums to zero;
  \<open>HEURISTIC_NAIVE\<close> when it has exactly one observation; otherwise, with cv = std/mean
  (infinite when mean \<le> 0) and trend = the mean first difference, \<open>HEURISTIC_NAIVE\<close> when
  cv < 0.3 and |trend| < 0.1 mean, else \<open>HEURISTIC_ROLLING_MEAN\<close>.
\<close>

theorem adaptive_heuristic_selection:
  assumes "product_rows ts name uom stype \<noteq> []"
    and "\<not> inactive (gap_weeks today (product_rows ts name uom stype))"
    and "fully_lagged (product_rows ts name uom stype) < MIN_XGBOOST_ROWS"
  shows "\<exists>tbl. forecast_single_product today ts model encoders name uom stype = Inr tbl
     \<and> length tbl = FORECAST_HORIZON
     \<and> map forecast_method tbl = replicate FORECAST_HORIZON
         (if product_series ts name uom stype = [] \<or> sum_list (product_series ts name uom stype) = 0
          then HEURISTIC_ZERO
          else if length (product_series ts name uom stype) = 1 then HEURISTIC_NAIVE
          else if 0 < mean (product_series ts name uom stype)
               \<and> std (product_series ts name uom stype) / mean (product_series ts name uom stype) < 0.3
               \<and> \<bar>mean (diff (product_series ts name uom stype))\<bar>
                    < 0.1 * mean (product_series ts name uom stype)
          then HEURISTIC_NAIVE
          else HEURISTIC_ROLLING_MEAN)
     \<and> (product_series ts name uom stype = [] \<or> sum_list (product_series ts name uom stype) = 0
          \<longrightarrow> map forecast_qty tbl = replicate FORECAST_HORIZON 0)"
proof -
  let ?s = "product_series ts name uom stype"
  have sel: "select_forecast today ts model encoders (product_rows ts name uom stype) =
      adaptive_heuristic ?s"
    using assms(2,3) by (simp add: select_forecast_heuristic product_series_def)
  have ne: "?s \<noteq> []"
    using assms(1) by (simp add: product_series_def)
  have tag: "snd (adaptive_heuristic ?s) =
         (if ?s = [] \<or> sum_list ?s = 0 then HEURISTIC_ZERO
          else if length ?s = 1 then HEURISTIC_NAIVE
          else if 0 < mean ?s \<and> std ?s / mean ?s < 0.3 \<and> \<bar>mean (diff ?s)\<bar> < 0.1 * mean ?s
          then HEURISTIC_NAIVE
          else HEURISTIC_ROLLING_MEAN)"
    using ne by (auto simp: adaptive_heuristic_def Let_def Suc_lessI)
  have zero: "?s = [] \<or> sum_list ?s = 0 \<Longrightarrow> fst (adaptive_heuristic ?s) = replicate FORECAST_HORIZON 0"
    by (auto simp: adaptive_heuristic_def)
  from forecast_single_product_table [OF assms(1), of today model encoders]
  show ?thesis
    unfolding sel using tag zero by auto
qed

theorem adaptive_heuristic_selection_witness:
  "(\<exists>tbl. forecast_single_product \<lparr>ts_year = 2024, ts_month = 1, ts_day = 10\<rparr>
        (five_week_frame 10 10 10 10 10) failing_model no_encoders ''rice'' ''kg'' (Some ''b2c'') = Inr tbl
      \<and> map forecast_method tbl = [HEURISTIC_NAIVE, HEURISTIC_NAIVE])
   \<and> (\<exists>tbl. forecast_single_product \<lparr>ts_year = 2024, ts_month = 1, ts_day = 10\<rparr>
        (five_week_frame 1 50 2 60 3) failing_model no_encoders ''rice'' ''kg'' (Some ''b2c'') = Inr tbl
      \<and> map forecast_method tbl = [HEURISTIC_ROLLING_MEAN, HEURISTIC_ROLLING_MEAN])"
proof -
  let ?today = "\<lparr>ts_year = 2024, ts_month = 1, ts_day = 10\<rparr>"
  have ne: "product_rows (five_week_frame q1 q2 q3 q4 q5) ''rice'' ''kg'' (Some ''b2c'') \<noteq> []"
    for q1 q2 q3 q4 q5
    by (simp add: product_rows_five_week_frame) (simp add: five_week_frame_def)
  have few: "fully_lagged (product_rows (five_week_frame q1 q2 q3 q4 q5) ''rice'' ''kg'' (Some ''b2c''))
      < MIN_XGBOOST_ROWS" for q1 q2 q3 q4 q5
    by (simp add: product_rows_five_week_frame fully_lagged_five_week_frame MIN_XGBOOST_ROWS_def)
  have act1: "\<not> inactive (gap_weeks ?today
      (product_rows (five_week_frame 10 10 10 10 10) ''rice'' ''kg'' (Some ''b2c'')))"
    by (simp add: product_rows_five_week_frame gap_stable_frame inactive_def INACTIVE_GAP_WEEKS_def)
  have act2: "\<not> inactive (gap_weeks ?today
      (product_rows (five_week_frame 1 50 2 60 3) ''rice'' ''kg'' (Some ''b2c'')))"
    by (simp add: product_rows_five_week_frame gap_volatile_frame inactive_def INACTIVE_GAP_WEEKS_def)
  have "\<exists>tbl. forecast_single_product ?today
        (five_week_frame 10 10 10 10 10) failing_model no_encoders ''rice'' ''kg'' (Some ''b2c'') = Inr tbl
      \<and> map forecast_method tbl = [HEURISTIC_NAIVE, HEURISTIC_NAIVE]"
    using adaptive_heuristic_selection [OF ne act1 few, of failing_model no_encoders]
    by (auto simp: product_series_five_week_frame stable_series_facts FORECAST_HORIZON_def
        eval_nat_numeral)
  moreover have "\<exists>tbl. forecast_single_product ?today
        (five_week_frame 1 50 2 60 3) failing_model no_encoders ''rice'' ''kg'' (Some ''b2c'') = Inr tbl
      \<and> map forecast_method tbl = [HEURISTIC_ROLLING_MEAN, HEURISTIC_ROLLING_MEAN]"
    using adaptive_heuristic_selection [OF ne act2 few, of failing_model no_encoders] volatile_cv
    by (auto simp: product_series_five_week_frame volatile_series_facts(1) FORECAST_HORIZON_def
        eval_nat_numeral)
  ultimately show ?thesis by blast
qed

text \<open>
  C8, as stated: the output dates start at the next business-week boundary, a day of the
  month in {1, 8, 15, 22}, on or after today. On the code this is false: called on
  Wednesday 2024-01-03 the dates are 2024-01-07 and 2024-01-14 (the next boundary would
  be 2024-01-08).
\<close>

theorem forecast_dates_counterexample:
  "(case forecast_single_product \<lparr>ts_year = 2024, ts_month = 1, ts_day = 3\<rparr> single_row_frame
           failing_model no_encoders ''rice'' ''kg'' (Some ''b2c'') of
      Inl e \<Rightarrow> []
    | Inr tbl \<Rightarrow> map forecast_date tbl) =
     [\<lparr>ts_year = 2024, ts_month = 1, ts_day = 7\<rparr>, \<lparr>ts_year = 2024, ts_month = 1, ts_day = 14\<rparr>]
   \<and> ts_day \<lparr>ts_year = 2024, ts_month = 1, ts_day = 7\<rparr> \<notin> {1, 8, 15, 22}"
proof -
  from forecast_single_product_table [OF product_rows_single_row_frame,
      of "\<lparr>ts_year = 2024, ts_month = 1, ts_day = 3\<rparr>" failing_model no_encoders]
  obtain tbl where "forecast_single_product \<lparr>ts_year = 2024, ts_month = 1, ts_day = 3\<rparr>
      single_row_frame failing_model no_encoders ''rice'' ''kg'' (Some ''b2c'') = Inr tbl"
    and "map forecast_date tbl =
      date_range_W_SUN \<lparr>ts_year = 2024, ts_month = 1, ts_day = 3\<rparr> FORECAST_HORIZON"
    by blast
  then show ?thesis
    by (simp add: date_range_from_jan_3)
qed

text \<open>
  C8, amended: for every product group for which \<open>forecast_single_product\<close> emits a
  forecast, the \<open>FORECAST_HORIZON\<close> output dates are consecutive Sundays, 7 days apart,
  starting at the first Sunday on or after today (\<open>freq="W-SUN"\<close>), and each forecast row
  carries the year, the month and the business-week number derived from its date.
\<close>

theorem forecast_dates_are_weekly_sundays:
  assumes "product_rows ts name uom stype \<noteq> []" and "calendar_date today"
  shows "\<exists>tbl. forecast_single_product today ts model encoders name uom stype = Inr tbl
     \<and> length tbl = FORECAST_HORIZON
     \<and> ordinal today \<le> ordinal (forecast_date (tbl ! 0))
     \<and> ordinal (forecast_date (tbl ! 0)) < ordinal today + 7
     \<and> (\<forall>i < FORECAST_HORIZON.
           calendar_date (forecast_date (tbl ! i))
         \<and> weekday (forecast_date (tbl ! i)) = 6
         \<and> ordinal (forecast_date (tbl ! i)) = ordinal (forecast_date (tbl ! 0)) + 7 * int i
         \<and> year (tbl ! i) = ts_year (forecast_date (tbl ! i))
         \<and> month (tbl ! i) = ts_month (forecast_date (tbl ! i))
         \<and> week_month (tbl ! i) = min 4 ((ts_day (forecast_date (tbl ! i)) - 1) div 7 + 1))"
proof -
  define first where "first = add_days (nat ((6 - weekday today) mod 7)) today"
  note fs = first_sunday [OF assms(2), folded first_def]
  from forecast_single_product_table [OF assms(1), of today model encoders]
  obtain tbl where tbl: "forecast_single_product today ts model encoders name uom stype = Inr tbl"
    and len: "length tbl = FORECAST_HORIZON"
    and dates: "map forecast_date tbl = date_range_W_SUN today FORECAST_HORIZON"
    and years: "map year tbl = map ts_year (date_range_W_SUN today FORECAST_HORIZON)"
    and months: "map month tbl = map ts_month (date_range_W_SUN today FORECAST_HORIZON)"
    and weeks: "map week_month tbl = week_month_from_date (date_range_W_SUN today FORECAST_HORIZON)"
    by blast
  have d: "forecast_date (tbl ! i) = add_days (7 * i) first" if "i < FORECAST_HORIZON" for i
  proof -
    have "forecast_date (tbl ! i) = map forecast_date tbl ! i"
      using that len by simp
    also have "\<dots> = add_days (7 * i) first"
      unfolding dates first_def using that by (rule nth_date_range_W_SUN)
    finally show ?thesis .
  qed
  have y: "year (tbl ! i) = ts_year (forecast_date (tbl ! i))" if "i < FORECAST_HORIZON" for i
  proof -
    have "year (tbl ! i) = map year tbl ! i" using that len by simp
    also have "\<dots> = ts_year (map forecast_date tbl ! i)"
      unfolding years dates using that by simp
    finally show ?thesis using that len by simp
  qed
  have m: "month (tbl ! i) = ts_month (forecast_date (tbl ! i))" if "i < FORECAST_HORIZON" for i
  proof -
    have "month (tbl ! i) = map month tbl ! i" using that len by simp
    also have "\<dots> = ts_month (map forecast_date tbl ! i)"
      unfolding months dates using that by simp
    finally show ?thesis using that len by simp
  qed
  have w: "week_month (tbl ! i) = min 4 ((ts_day (forecast_date (tbl ! i)) - 1) div 7 + 1)"
    if "i < FORECAST_HORIZON" for i
  proof -
    have "week_month (tbl ! i) = map week_month tbl ! i" using that len by simp
    also have "\<dots> = min 4 ((ts_day (map forecast_date tbl ! i) - 1) div 7 + 1)"
      unfolding weeks dates week_month_from_date_def using that by simp
    finally show ?thesis using that len by simp
  qed
  have pos: "0 < FORECAST_HORIZON" by (simp add: FORECAST_HORIZON_def)
  have d0: "forecast_date (tbl ! 0) = first"
    using d [OF pos] by simp
  have "calendar_date (forecast_date (tbl ! i)) \<and> weekday (forecast_date (tbl ! i)) = 6
      \<and> ordinal (forecast_date (tbl ! i)) = ordinal (forecast_date (tbl ! 0)) + 7 * int i"
    if "i < FORECAST_HORIZON" for i
    using later_sundays [OF fs(1,2), of i] d [OF that] d0 by simp
  with tbl len y m w fs(3,4) d0 show ?thesis
    by auto
qed

theorem forecast_dates_are_weekly_sundays_witness:
  "product_rows single_row_frame ''rice'' ''kg'' (Some ''b2c'') \<noteq> []
   \<and> calendar_date \<lparr>ts_year = 2024, ts_month = 1, ts_day = 3\<rparr>
   \<and> (\<exists>tbl. forecast_single_product \<lparr>ts_year = 2024, ts_month = 1, ts_day = 3\<rparr> single_row_frame
           failing_model no_encoders ''rice'' ''kg'' (Some ''b2c'') = Inr tbl
        \<and> length tbl = 2
        \<and> weekday (forecast_date (tbl ! 0)) = 6
        \<and> weekday (forecast_date (tbl ! 1)) = 6
        \<and> ordinal (forecast_date (tbl ! 1)) = ordinal (forecast_date (tbl ! 0)) + 7
        \<and> year (tbl ! 1) = ts_year (forecast_date (tbl ! 1)))"
proof -
  have c: "calendar_date \<lparr>ts_year = 2024, ts_month = 1, ts_day = 3\<rparr>"
    by (simp add: calendar_date_def days_in_month_def)
  from forecast_dates_are_weekly_sundays [OF product_rows_single_row_frame c,
      of failing_model no_encoders]
  obtain tbl where t: "forecast_single_product \<lparr>ts_year = 2024, ts_month = 1, ts_day = 3\<rparr>
        single_row_frame failing_model no_encoders ''rice'' ''kg'' (Some ''b2c'') = Inr tbl"
    and l: "length tbl = FORECAST_HORIZON"
    and a: "\<forall>i < FORECAST_HORIZON.
           calendar_date (forecast_date (tbl ! i))
         \<and> weekday (forecast_date (tbl ! i)) = 6
         \<and> ordinal (forecast_date (tbl ! i)) = ordinal (forecast_date (tbl ! 0)) + 7 * int i
         \<and> year (tbl ! i) = ts_year (forecast_date (tbl ! i))
         \<and> month (tbl ! i) = ts_month (forecast_date (tbl ! i))
         \<and> week_month (tbl ! i) = min 4 ((ts_day (forecast_date (tbl ! i)) - 1) div 7 + 1)"
    by blast
  have "0 < FORECAST_HORIZON" "1 < FORECAST_HORIZON"
    by (simp_all add: FORECAST_HORIZON_def)
  with a have "weekday (forecast_date (tbl ! 0)) = 6" "weekday (forecast_date (tbl ! 1)) = 6"
    "ordinal (forecast_date (tbl ! 1)) = ordinal (forecast_date (tbl ! 0)) + 7 * int 1"
    "year (tbl ! 1) = ts_year (forecast_date (tbl ! 1))"
    by blast+
  with t l have "\<exists>tbl. forecast_single_product \<lparr>ts_year = 2024, ts_month = 1, ts_day = 3\<rparr> single_row_frame
           failing_model no_encoders ''rice'' ''kg'' (Some ''b2c'') = Inr tbl
        \<and> length tbl = 2
        \<and> weekday (forecast_date (tbl ! 0)) = 6
        \<and> weekday (forecast_date (tbl ! 1)) = 6
        \<and> ordinal (forecast_date (tbl ! 1)) = ordinal (forecast_date (tbl ! 0)) + 7
        \<and> year (tbl ! 1) = ts_year (forecast_date (tbl ! 1))"
    by (simp add: FORECAST_HORIZON_def)
  with c product_rows_single_row_frame show ?thesis by blast
qed

section \<open>Pipeline orchestrator: properties\<close>

lemma concat_filter_nonempty: "concat (filter (\<lambda>t. t \<noteq> []) xs) = concat xs"
  by (induction xs) simp_all

lemma forecast_products_acc:
  "forecast_products fsp ts model encoders products (all_forecasts, failed) =
     (all_forecasts @ filter (\<lambda>t. t \<noteq> [])
        (map (\<lambda>g. case group_outcome fsp ts model encoders g of Inr tbl \<Rightarrow> tbl | Inl e \<Rightarrow> []) products),
      failed @ List.map_filter
        (\<lambda>g. map_option (Pair g) (failure_reason (group_outcome fsp ts model encoders g))) products)"
proof (induction products arbitrary: all_forecasts failed)
  case Nil
  then show ?case by (simp add: List.map_filter_simps)
next
  case (Cons g products)
  obtain name uom stype where g: "g = (name, uom, stype)" by (cases g)
  show ?case
  proof (cases "fsp ts model encoders name uom (Some stype)")
    case (Inl e)
    then show ?thesis
      unfolding g by (simp add: Cons.IH List.map_filter_simps group_outcome_def failure_reason_def)
  next
    case (Inr tbl)
    then show ?thesis
      unfolding g by (simp add: Cons.IH List.map_filter_simps group_outcome_def failure_reason_def)
  qed
qed

lemma unique_empty_iff: "unique xs = [] \<longleftrightarrow> xs = []"
  by (simp add: unique_def)

lemma length_encode_rows [simp]:
  "length (rows (fst (encode_categorical_features df e))) = length (rows df)"
  by (simp add: encode_categorical_features_def Let_def)

lemma trained_has_rows:
  assumes "train_xgboost_model fit df = Inr (model, encoders)"
  shows "rows df \<noteq> []"
proof
  assume "rows df = []"
  then have "train_xgboost_model fit df = Inl ''Insufficient training data after NaN removal''"
    by (simp add: train_xgboost_model_def encode_categorical_features_def Let_def assign_def)
  with assms show False by simp
qed

lemma lag_4_column:
  "map lag_4 (rows (create_xgboost_features df)) = groupby_shift 4 (sorted_with_y df)"
  unfolding create_xgboost_features_def Let_def
  by (simp add: map_assign_other map_assign_same groupby_shift_assign group_cols_def)

lemma lag_8_column:
  "map lag_8 (rows (create_xgboost_features df)) = groupby_shift 8 (sorted_with_y df)"
  unfolding create_xgboost_features_def Let_def
  by (simp add: map_assign_other map_assign_same groupby_shift_assign group_cols_def)

lemma roll_mean_8_column:
  "map roll_mean_8 (rows (create_xgboost_features df)) =
     rolling 8 mean (groupby_shift 1 (sorted_with_y df))"
  unfolding create_xgboost_features_def Let_def
  by (simp add: map_assign_other map_assign_same groupby_shift_assign group_cols_def)

lemma roll_std_4_column:
  "map roll_std_4 (rows (create_xgboost_features df)) =
     rolling 4 std (groupby_shift 1 (sorted_with_y df))"
  unfolding create_xgboost_features_def Let_def
  by (simp add: map_assign_other map_assign_same groupby_shift_assign group_cols_def)

lemma complete_features_iff:
  "complete_features r \<longleftrightarrow> lag_1 r \<noteq> None \<and> lag_4 r \<noteq> None \<and> lag_8 r \<noteq> None
     \<and> roll_mean_4 r \<noteq> None \<and> roll_mean_8 r \<noteq> None \<and> roll_std_4 r \<noteq> None"
  unfolding complete_features_def FEATURES_def
  by (cases "lag_1 r"; cases "lag_4 r"; cases "lag_8 r"; cases "roll_mean_4 r";
      cases "roll_mean_8 r"; cases "roll_std_4 r"; simp)

lemma complete_features_upd:
  "complete_features (r\<lparr>y := v\<rparr>) = complete_features r"
  "complete_features (r\<lparr>product_name_encoded := a\<rparr>) = complete_features r"
  "complete_features (r\<lparr>product_uom_encoded := a\<rparr>) = complete_features r"
  "complete_features (r\<lparr>sales_type_encoded := a\<rparr>) = complete_features r"
  by (simp_all add: complete_features_iff)

lemma map_complete_features_encode:
  "map complete_features (rows (fst (encode_categorical_features df e))) =
      map complete_features (rows df)"
  by (simp add: encode_categorical_features_def Let_def map_assign_other complete_features_upd)

lemma map_complete_features_training:
  "map complete_features
     (assign (\<lambda>r v. r\<lparr>y := v\<rparr>) (map f (rows (fst (encode_categorical_features df e))))
        (rows (fst (encode_categorical_features df e)))) = map complete_features (rows df)"
  by (simp add: map_assign_other complete_features_upd map_complete_features_encode)

lemma train_xgboost_model_succeeds:
  assumes "i < length (rows df)" and "complete_features (rows df ! i)"
  shows "\<exists>encoders. train_xgboost_model (constant_fit model) df = Inr (model, encoders)"
proof -
  define enc where "enc = encode_categorical_features df None"
  define ts where "ts = assign (\<lambda>r v. r\<lparr>y := v\<rparr>)
      (map (\<lambda>r. log1p (qty_for_forecast r)) (rows (fst enc))) (rows (fst enc))"
  have "map complete_features (rows df) ! i = True"
    using assms by simp
  then have "True \<in> set (map complete_features (rows df))"
    using assms(1) by (metis length_map nth_mem)
  then have "True \<in> set (map complete_features ts)"
    unfolding ts_def enc_def by (simp only: map_complete_features_training)
  then have ne: "filter complete_features ts \<noteq> []"
    by (auto simp: filter_empty_conv)
  have "train_xgboost_model (constant_fit model) df =
      (if length (filter complete_features ts) = 0
       then Inl ''Insufficient training data after NaN removal''
       else Inr (model, snd enc))"
    unfolding train_xgboost_model_def Let_def ts_def enc_def
    by (simp add: case_prod_beta constant_fit_def)
  with ne show ?thesis by simp
qed

lemma complete_features_created:
  assumes "i < length (rows df)"
  shows "complete_features (rows (create_xgboost_features df) ! i) \<longleftrightarrow>
     groupby_shift 1 (sorted_with_y df) ! i \<noteq> None
     \<and> groupby_shift 4 (sorted_with_y df) ! i \<noteq> None
     \<and> groupby_shift 8 (sorted_with_y df) ! i \<noteq> None
     \<and> rolling 4 mean (groupby_shift 1 (sorted_with_y df)) ! i \<noteq> None
     \<and> rolling 8 mean (groupby_shift 1 (sorted_with_y df)) ! i \<noteq> None
     \<and> rolling 4 std (groupby_shift 1 (sorted_with_y df)) ! i \<noteq> None"
proof -
  have l: "i < length (rows (create_xgboost_features df))"
    using assms by simp
  have "lag_1 (rows (create_xgboost_features df) ! i) = groupby_shift 1 (sorted_with_y df) ! i"
    using nth_map [OF l, of lag_1] by (simp only: lag_1_column)
  moreover have "lag_4 (rows (create_xgboost_features df) ! i) = groupby_shift 4 (sorted_with_y df) ! i"
    using nth_map [OF l, of lag_4] by (simp only: lag_4_column)
  moreover have "lag_8 (rows (create_xgboost_features df) ! i) = groupby_shift 8 (sorted_with_y df) ! i"
    using nth_map [OF l, of lag_8] by (simp only: lag_8_column)
  moreover have "roll_mean_4 (rows (create_xgboost_features df) ! i) =
      rolling 4 mean (groupby_shift 1 (sorted_with_y df)) ! i"
    using nth_map [OF l, of roll_mean_4] by (simp only: roll_mean_4_column)
  moreover have "roll_mean_8 (rows (create_xgboost_features df) ! i) =
      rolling 8 mean (groupby_shift 1 (sorted_with_y df)) ! i"
    using nth_map [OF l, of roll_mean_8] by (simp only: roll_mean_8_column)
  moreover have "roll_std_4 (rows (create_xgboost_features df) ! i) =
      rolling 4 std (groupby_shift 1 (sorted_with_y df)) ! i"
    using nth_map [OF l, of roll_std_4] by (simp only: roll_std_4_column)
  ultimately show ?thesis
    by (simp only: complete_features_iff)
qed

lemma group_y_two_product_frame:
  "map (\<lambda>r. (group_cols r, y r)) (sorted_with_y two_product_frame) =
     [((''beans'', ''kg'', ''b2c''), log1p 3),
      ((''rice'', ''kg'', ''b2c''), log1p 5), ((''rice'', ''kg'', ''b2c''), log1p 5),
      ((''rice'', ''kg'', ''b2c''), log1p 5), ((''rice'', ''kg'', ''b2c''), log1p 5),
      ((''rice'', ''kg'', ''b2c''), log1p 5), ((''rice'', ''kg'', ''b2c''), log1p 5),
      ((''rice'', ''kg'', ''b2c''), log1p 5), ((''rice'', ''kg'', ''b2c''), log1p 5),
      ((''rice'', ''kg'', ''b2c''), log1p 5), ((''rice'', ''kg'', ''b2c''), log1p 5)]"
  by (simp add: sorted_with_y_def sort_values_name_uom_date_def two_product_frame_def
      long_history_frame_def lagged_row_def weekly_row_def assign_def group_cols_def Let_def
      ordinal_def days_before_year_def days_before_month_def is_leap_def)

lemma two_product_frame_last_row_complete:
  "complete_features (rows (create_xgboost_features two_product_frame) ! 10)"
proof -
  have l: "10 < length (rows two_product_frame)"
    by (simp add: two_product_frame_def long_history_frame_def)
  have s1: "groupby_shift 1 (sorted_with_y two_product_frame) =
      [None, None, Some (log1p 5), Some (log1p 5), Some (log1p 5), Some (log1p 5), Some (log1p 5),
       Some (log1p 5), Some (log1p 5), Some (log1p 5), Some (log1p 5)]"
    unfolding groupby_shift_def group_y_two_product_frame by simp
  have "groupby_shift 4 (sorted_with_y two_product_frame) ! 10 \<noteq> None"
    unfolding groupby_shift_def group_y_two_product_frame by simp
  moreover have "groupby_shift 8 (sorted_with_y two_product_frame) ! 10 \<noteq> None"
    unfolding groupby_shift_def group_y_two_product_frame by simp
  moreover have "rolling 4 mean (groupby_shift 1 (sorted_with_y two_product_frame)) ! 10 \<noteq> None"
    unfolding s1 rolling_def by simp
  moreover have "rolling 8 mean (groupby_shift 1 (sorted_with_y two_product_frame)) ! 10 \<noteq> None"
    unfolding s1 rolling_def by simp
  moreover have "rolling 4 std (groupby_shift 1 (sorted_with_y two_product_frame)) ! 10 \<noteq> None"
    unfolding s1 rolling_def by simp
  moreover have "groupby_shift 1 (sorted_with_y two_product_frame) ! 10 \<noteq> None"
    unfolding s1 by simp
  ultimately show ?thesis
    unfolding complete_features_created [OF l] by blast
qed

lemma products_two_product_frame:
  "unique (map group_cols (rows (create_xgboost_features two_product_frame))) =
     [(''beans'', ''kg'', ''b2c''), (''rice'', ''kg'', ''b2c'')]"
proof -
  have "map group_cols (sorted_with_y two_product_frame) =
      map fst (map (\<lambda>r. (group_cols r, y r)) (sorted_with_y two_product_frame))"
    by (simp add: o_def)
  then show ?thesis
    unfolding group_cols_column group_y_two_product_frame
    by (simp add: unique_def)
qed

text \<open>
  C9. For every input table, once the global model is trained, \<open>run_pipeline\<close> returns
  and does not raise, whatever the per-group calls do: a group whose forecast raises or
  comes back empty is recorded in the failed list with a reason and contributes no row;
  the tables of the other groups are concatenated, in order, into the one output; and
  when every group fails the output is empty. (A trained model implies at least one
  group.) The per-group call is a parameter here; \<open>run_pipeline\<close> is the instance with
  \<open>forecast_single_product\<close>.
\<close>

theorem run_pipeline_collects_failures:
  assumes "train_xgboost_model fit (create_xgboost_features ts) = Inr (model, encoders)"
  shows "\<exists>res. run_pipeline_with fsp fit ts = Inr res
     \<and> unique (map group_cols (rows (create_xgboost_features ts))) \<noteq> []
     \<and> final_forecast res =
         concat (map (\<lambda>g. case group_outcome fsp (create_xgboost_features ts) model encoders g of
                          Inr tbl \<Rightarrow> tbl
                        | Inl e \<Rightarrow> [])
                   (unique (map group_cols (rows (create_xgboost_features ts)))))
     \<and> failed_products res =
         List.map_filter
           (\<lambda>g. map_option (Pair g)
                  (failure_reason (group_outcome fsp (create_xgboost_features ts) model encoders g)))
           (unique (map group_cols (rows (create_xgboost_features ts))))
     \<and> ((\<forall>g \<in> set (unique (map group_cols (rows (create_xgboost_features ts)))).
            failure_reason (group_outcome fsp (create_xgboost_features ts) model encoders g) \<noteq> None)
          \<longrightarrow> final_forecast res = [])"
proof -
  define ts' where "ts' = create_xgboost_features ts"
  define products where "products = unique (map group_cols (rows ts'))"
  define tables where "tables = map (\<lambda>g. case group_outcome fsp ts' model encoders g of
      Inr tbl \<Rightarrow> tbl | Inl e \<Rightarrow> []) products"
  define failed where "failed = List.map_filter
      (\<lambda>g. map_option (Pair g) (failure_reason (group_outcome fsp ts' model encoders g))) products"
  have ne: "products \<noteq> []"
    using trained_has_rows [OF assms] by (simp add: products_def ts'_def unique_empty_iff)
  have loop: "forecast_products fsp ts' model encoders products ([], []) =
      (filter (\<lambda>t. t \<noteq> []) tables, failed)"
    by (simp add: forecast_products_acc tables_def failed_def)
  define res where "res =
     (if filter (\<lambda>t. t \<noteq> []) tables \<noteq> []
      then \<lparr>final_forecast = concat (filter (\<lambda>t. t \<noteq> []) tables), failed_products = failed,
            failed_forecasts_csv = (if failed \<noteq> [] then Some failed else None)\<rparr>
      else \<lparr>final_forecast = [], failed_products = failed, failed_forecasts_csv = None\<rparr>)"
  have run: "run_pipeline_with fsp fit ts = Inr res"
    using assms ne
    by (simp add: run_pipeline_with_def Let_def ts'_def [symmetric] products_def [symmetric]
        loop res_def)
  have final: "final_forecast res = concat tables"
    using concat_filter_nonempty [of tables] by (auto simp: res_def)
  have fl: "failed_products res = failed"
    by (simp add: res_def)
  have allfail: "concat tables = []"
    if "\<forall>g \<in> set products. failure_reason (group_outcome fsp ts' model encoders g) \<noteq> None"
  proof -
    have "(case group_outcome fsp ts' model encoders g of Inr tbl \<Rightarrow> tbl | Inl e \<Rightarrow> []) = []"
      if "g \<in> set products" for g
      using \<open>\<forall>g \<in> set products. _\<close> that
      by (auto simp: failure_reason_def split: sum.splits if_splits)
    then show ?thesis by (simp add: tables_def)
  qed
  show ?thesis
    using run ne final fl allfail
    unfolding tables_def failed_def products_def ts'_def by auto
qed

theorem run_pipeline_collects_failures_witness:
  "(\<exists>res. run_pipeline_with beans_fail (constant_fit failing_model) two_product_frame = Inr res
      \<and> final_forecast res =
          [\<lparr>year = 2024, month = 1, week_month = 2, product_name = ''rice'', product_uom = ''kg'',
            sales_type = ''b2c'',
            forecast_date = \<lparr>ts_year = 2024, ts_month = 1, ts_day = 14\<rparr>,
            forecast_qty = 5, forecast_method = HEURISTIC_NAIVE\<rparr>]
      \<and> failed_products res = [((''beans'', ''kg'', ''b2c''), ''Error: boom'')])
   \<and> (\<exists>res. run_pipeline_with all_fail (constant_fit failing_model) two_product_frame = Inr res
      \<and> final_forecast res = []
      \<and> failed_products res = [((''beans'', ''kg'', ''b2c''), ''Error: boom''),
                                ((''rice'', ''kg'', ''b2c''), ''Error: boom'')])"
proof -
  have "10 < length (rows (create_xgboost_features two_product_frame))"
    by (simp add: two_product_frame_def long_history_frame_def)
  from train_xgboost_model_succeeds [OF this two_product_frame_last_row_complete, of failing_model]
  obtain encoders where trained:
    "train_xgboost_model (constant_fit failing_model) (create_xgboost_features two_product_frame) =
       Inr (failing_model, encoders)"
    by blast
  have "\<exists>res. run_pipeline_with beans_fail (constant_fit failing_model) two_product_frame = Inr res
      \<and> final_forecast res =
          [\<lparr>year = 2024, month = 1, week_month = 2, product_name = ''rice'', product_uom = ''kg'',
            sales_type = ''b2c'',
            forecast_date = \<lparr>ts_year = 2024, ts_month = 1, ts_day = 14\<rparr>,
            forecast_qty = 5, forecast_method = HEURISTIC_NAIVE\<rparr>]
      \<and> failed_products res = [((''beans'', ''kg'', ''b2c''), ''Error: boom'')]"
    using run_pipeline_collects_failures [OF trained, of beans_fail]
    unfolding products_two_product_frame
    by (auto simp: group_outcome_def beans_fail_def failure_reason_def List.map_filter_simps)
  moreover have "\<exists>res. run_pipeline_with all_fail (constant_fit failing_model) two_product_frame = Inr res
      \<and> final_forecast res = []
      \<and> failed_products res = [((''beans'', ''kg'', ''b2c''), ''Error: boom''),
                                ((''rice'', ''kg'', ''b2c''), ''Error: boom'')]"
    using run_pipeline_collects_failures [OF trained, of all_fail]
    unfolding products_two_product_frame
    by (auto simp: group_outcome_def all_fail_def failure_reason_def List.map_filter_simps)
  ultimately show ?thesis by blast
qed

section \<open>The object store: properties\<close>

lemma extends_refl [simp]: "extends s s"
  by (simp add: extends_def)

lemma extends_length: "extends s s' \<Longrightarrow> length s \<le> length s'"
proof -
  assume "extends s s'"
  then have "length (take (length s) s') = length s"
    by (simp add: extends_def)
  then show ?thesis by simp
qed

lemma extends_trans: "extends s s1 \<Longrightarrow> extends s1 s2 \<Longrightarrow> extends s s2"
proof -
  assume a: "extends s s1" and b: "extends s1 s2"
  have "take (length s) s2 = take (length s) (take (length s1) s2)"
    using extends_length [OF a] by (simp add: min_def)
  also have "\<dots> = s" using a b by (simp add: extends_def)
  finally show ?thesis by (simp add: extends_def)
qed

lemma extends_nth: "extends s s' \<Longrightarrow> a < length s \<Longrightarrow> s' ! a = s ! a"
proof -
  assume a: "extends s s'" and b: "a < length s"
  have "take (length s) s' ! a = s' ! a"
    using b by simp
  with a show ?thesis by (simp add: extends_def)
qed

lemma extends_alloc: "extends s (snd (alloc v s))"
  by (simp add: extends_def alloc_def)

lemma extends_modify_fresh: "length s \<le> a \<Longrightarrow> extends s s' \<Longrightarrow> extends s (modify a f s')"
  by (simp add: extends_def modify_def)

lemma length_modify [simp]: "length (modify a f s) = length s"
  by (simp add: modify_def)

lemma length_set_column [simp]: "length (set_column a upd col s) = length s"
  by (simp add: set_column_def)

lemma extends_set_column_fresh:
  "length s \<le> a \<Longrightarrow> extends s s' \<Longrightarrow> extends s (set_column a upd col s')"
  by (simp add: set_column_def extends_modify_fresh)

lemma fst_alloc [simp]: "fst (alloc v s) = length s"
  by (simp add: alloc_def)

lemma snd_alloc [simp]: "snd (alloc v s) = s @ [v]"
  by (simp add: alloc_def)

lemma build_weekly_timeseries_st_extends:
  "extends s (snd (build_weekly_timeseries_st df flag s))"
proof (cases flag)
  case True
  then show ?thesis
    by (simp add: build_weekly_timeseries_st_def case_prod_beta Let_def extends_def modify_def)
next
  case False
  then show ?thesis
    by (simp add: build_weekly_timeseries_st_def case_prod_beta Let_def extends_def modify_def)
qed

lemma build_weekly_timeseries_st_result:
  assumes "df < length s"
  shows "fst (build_weekly_timeseries_st df flag s) = build_weekly_timeseries (s ! df) flag"
proof (cases flag)
  case True
  then show ?thesis
    using assms
    by (simp add: build_weekly_timeseries_st_def build_weekly_timeseries_def case_prod_beta
        Let_def modify_def nth_append)
next
  case False
  then show ?thesis
    using assms
    by (simp add: build_weekly_timeseries_st_def build_weekly_timeseries_def case_prod_beta
        Let_def modify_def nth_append)
qed

lemma extends_append [simp]: "extends s (s @ xs)"
  by (simp add: extends_def)

lemma extends_alloc_after: "extends s s' \<Longrightarrow> extends s (snd (alloc v s'))"
  using extends_alloc [of s' v] by (rule extends_trans [rotated])

lemma length_extends_alloc: "extends s s' \<Longrightarrow> length s \<le> fst (alloc v s')"
  by (simp add: extends_length)

lemma create_xgboost_features_st_extends:
  "extends s (snd (create_xgboost_features_st ts s))"
  unfolding create_xgboost_features_st_def Let_def case_prod_beta
  by (simp add: extends_set_column_fresh extends_modify_fresh)

lemma encode_categorical_features_st_extends:
  "extends s (snd (encode_categorical_features_st df e s))"
  unfolding encode_categorical_features_st_def Let_def case_prod_beta
  by (simp add: extends_set_column_fresh extends_modify_fresh)

lemma train_xgboost_model_st_extends:
  "extends s (snd (train_xgboost_model_st fit train_df s))"
proof -
  define s1 where "s1 = snd (encode_categorical_features_st train_df None s)"
  define a1 where "a1 = fst (fst (encode_categorical_features_st train_df None s))"
  define s2 where "s2 = set_column (length s1) (\<lambda>r v. r\<lparr>y := v\<rparr>)
      (map (\<lambda>r. log1p (qty_for_forecast r))) (s1 @ [s1 ! a1])"
  define s3 where "s3 = s2 @ [(s2 ! length s1)\<lparr>rows := filter complete_features (rows (s2 ! length s1))\<rparr>]"
  have e1: "extends s s1"
    unfolding s1_def by (rule encode_categorical_features_st_extends)
  have "extends s1 s2"
    unfolding s2_def by (simp add: extends_set_column_fresh)
  moreover have "extends s2 s3"
    unfolding s3_def by simp
  ultimately have e3: "extends s s3"
    using e1 extends_trans by blast
  have "snd (train_xgboost_model_st fit train_df s) = s3"
    unfolding train_xgboost_model_st_def Let_def case_prod_beta s3_def s2_def s1_def a1_def
    by (simp split: sum.splits)
  with e3 show ?thesis by simp
qed

declare forecast_loop_st.simps [simp del]

lemma forecast_step_st_extends:
  assumes "\<And>a t. extends t (snd (feature_creator a t))"
  shows "extends s (snd (forecast_step_st model feature_creator encoders df s))"
proof -
  define s1 where "s1 = snd (feature_creator df s)"
  define a1 where "a1 = fst (feature_creator df s)"
  define s2 where "s2 = snd (encode_categorical_features_st a1 (Some encoders) s1)"
  have e2: "extends s s2"
    using assms [of s df] encode_categorical_features_st_extends [of s1 a1 "Some encoders"]
    unfolding s1_def s2_def by (rule extends_trans)
  have "snd (forecast_step_st model feature_creator encoders df s) = s2
      \<or> (\<exists>v. snd (forecast_step_st model feature_creator encoders df s) = s2 @ [v])"
    unfolding forecast_step_st_def Let_def case_prod_beta s2_def s1_def a1_def
    by (simp split: list.splits sum.splits)
  then show ?thesis
  proof
    assume "snd (forecast_step_st model feature_creator encoders df s) = s2"
    with e2 show ?thesis by simp
  next
    assume "\<exists>v. snd (forecast_step_st model feature_creator encoders df s) = s2 @ [v]"
    then obtain v where "snd (forecast_step_st model feature_creator encoders df s) = s2 @ [v]"
      by blast
    moreover have "extends s (s2 @ [v])"
      using e2 extends_append [of s2 "[v]"] by (rule extends_trans)
    ultimately show ?thesis by simp
  qed
qed

lemma forecast_loop_st_extends:
  assumes "\<And>a t. extends t (snd (feature_creator a t))"
  shows "extends s (snd (forecast_loop_st model feature_creator encoders horizon step df forecasts s))"
  using assms
proof (induction model feature_creator encoders horizon step df forecasts s
    rule: forecast_loop_st.induct)
  case (1 model feature_creator encoders horizon step df forecasts s)
  note fc = "1.prems"
  show ?case
  proof (cases "step < horizon")
    case False
    then show ?thesis
      by (simp add: forecast_loop_st.simps [of _ _ _ horizon step])
  next
    case True
    obtain r s' where st: "forecast_step_st model feature_creator encoders df s = (r, s')"
      by (cases "forecast_step_st model feature_creator encoders df s")
    have "extends s (snd (forecast_step_st model feature_creator encoders df s))"
      by (rule forecast_step_st_extends) (rule fc)
    then have e: "extends s s'"
      using st by simp
    show ?thesis
    proof (cases r)
      case (Inl e')
      with True st e show ?thesis
        by (simp add: forecast_loop_st.simps [of _ _ _ horizon step])
    next
      case (Inr p)
      obtain df' pred where p: "p = (df', pred)" by (cases p)
      have "extends s' (snd (forecast_loop_st model feature_creator encoders horizon (Suc step) df'
          (forecasts @ [pred]) s'))"
        by (rule "1.IH") (use True st Inr p fc in auto)
      with e have "extends s (snd (forecast_loop_st model feature_creator encoders horizon (Suc step)
          df' (forecasts @ [pred]) s'))"
        by (rule extends_trans)
      with True st Inr p show ?thesis
        by (simp add: forecast_loop_st.simps [of _ _ _ horizon step])
    qed
  qed
qed

lemma xgboost_recursive_forecast_st_extends:
  assumes "\<And>a t. extends t (snd (feature_creator a t))"
  shows "extends s (snd (xgboost_recursive_forecast_st model product_df horizon feature_creator
      encoders s))"
proof -
  define s1 where "s1 = modify (length s) (\<lambda>df. df\<lparr>y_column := True\<rparr>)
      (set_column (length s) (\<lambda>r v. r\<lparr>y := v\<rparr>) (map (\<lambda>r. log1p (qty_for_forecast r)))
         (s @ [s ! product_df]))"
  have "extends s s1"
    unfolding s1_def by (simp add: extends_modify_fresh extends_set_column_fresh)
  moreover have "extends s1 (snd (forecast_loop_st model feature_creator encoders horizon 0
      (length s) [] s1))"
    by (rule forecast_loop_st_extends) (rule assms)
  ultimately have "extends s (snd (forecast_loop_st model feature_creator encoders horizon 0
      (length s) [] s1))"
    by (rule extends_trans)
  then show ?thesis
    unfolding xgboost_recursive_forecast_st_def Let_def case_prod_beta s1_def by simp
qed

lemma in_place_assignment_is_visible:
  "\<not> extends [two_sided_rows] (modify 0 assign_row_qty [two_sided_rows])"
  by (simp add: extends_def modify_def assign_row_qty_def two_sided_rows_def)

lemma data_frame_eq_iff:
  "(a :: data_frame) = b \<longleftrightarrow> y_column a = y_column b \<and> rows a = rows b"
  by (cases a; cases b) simp

lemma modify_second_new:
  "modify (Suc (length s)) f (s @ [v, w]) = s @ [v, f w]"
  by (simp add: modify_def list_update_append nth_append)

lemma set_column_second_new:
  "set_column (Suc (length s)) upd col (s @ [v, w]) =
     s @ [v, w\<lparr>rows := assign upd (col (rows w)) (rows w)\<rparr>]"
  by (simp add: set_column_def modify_second_new)

lemma modify_first_new:
  "modify (length s) f (s @ [w]) = s @ [f w]"
  by (simp add: modify_def)

lemma set_column_first_new:
  "set_column (length s) upd col (s @ [w]) =
     s @ [w\<lparr>rows := assign upd (col (rows w)) (rows w)\<rparr>]"
  by (simp add: set_column_def modify_first_new)

lemma create_xgboost_features_st_result:
  assumes "ts < length s"
  shows "fst (create_xgboost_features_st ts s) = Suc (length s)"
    and "snd (create_xgboost_features_st ts s) ! Suc (length s) = create_xgboost_features (s ! ts)"
  using assms
  unfolding create_xgboost_features_st_def create_xgboost_features_def sorted_with_y_def Let_def
    case_prod_beta
  by (simp_all add: nth_append set_column_second_new modify_second_new data_frame_eq_iff)

lemma encode_categorical_features_st_result:
  assumes "df < length s"
  shows "fst (fst (encode_categorical_features_st df e s)) = length s"
    and "snd (fst (encode_categorical_features_st df e s)) = snd (encode_categorical_features (s ! df) e)"
    and "snd (encode_categorical_features_st df e s) ! length s =
      fst (encode_categorical_features (s ! df) e)"
    and "length (snd (encode_categorical_features_st df e s)) = Suc (length s)"
  using assms
  unfolding encode_categorical_features_st_def encode_categorical_features_def Let_def
    case_prod_beta
  by (simp_all add: nth_append set_column_first_new data_frame_eq_iff split: option.splits)

lemma encode_categorical_features_st_store:
  assumes "df < length s"
  shows "snd (encode_categorical_features_st df e s) = s @ [fst (encode_categorical_features (s ! df) e)]"
  using assms
  unfolding encode_categorical_features_st_def encode_categorical_features_def Let_def
    case_prod_beta
  by (simp add: nth_append set_column_first_new data_frame_eq_iff split: option.splits)

lemma train_xgboost_model_st_result:
  assumes "train_df < length s"
  shows "fst (train_xgboost_model_st fit train_df s) = train_xgboost_model fit (s ! train_df)"
proof -
  define pure where "pure = encode_categorical_features (s ! train_df) None"
  have a: "fst (fst (encode_categorical_features_st train_df None s)) = length s"
    and e: "snd (fst (encode_categorical_features_st train_df None s)) = snd pure"
    and t: "snd (encode_categorical_features_st train_df None s) = s @ [fst pure]"
    using encode_categorical_features_st_result [OF assms, of None]
      encode_categorical_features_st_store [OF assms, of None]
    by (simp_all add: pure_def)
  show ?thesis
    unfolding train_xgboost_model_st_def train_xgboost_model_def Let_def case_prod_beta
      pure_def [symmetric] a e t
    by (simp add: nth_append set_column_first_new [of "s @ [fst pure]", simplified]
        split: sum.splits)
qed

lemma create_xgboost_features_st_store:
  assumes "ts < length s"
  shows "snd (create_xgboost_features_st ts s) =
     s @ [(s ! ts)\<lparr>rows := sort_values_name_uom_date (rows (s ! ts))\<rparr>,
          create_xgboost_features (s ! ts)]"
  using assms
  unfolding create_xgboost_features_st_def create_xgboost_features_def sorted_with_y_def Let_def
    case_prod_beta
  by (simp add: nth_append set_column_second_new modify_second_new data_frame_eq_iff)

lemma forecast_step_st_result:
  assumes "df < length s"
  shows "\<exists>s'. forecast_step_st model create_xgboost_features_st encoders df s =
     (case forecast_step model create_xgboost_features encoders (s ! df) of
        Inl e \<Rightarrow> (Inl e, s')
      | Inr (frame, pred) \<Rightarrow> (Inr (length s', pred), s' @ [frame]))"
proof -
  define s1 where "s1 = s @ [(s ! df)\<lparr>rows := sort_values_name_uom_date (rows (s ! df))\<rparr>,
      create_xgboost_features (s ! df)]"
  define f2 where "f2 = fst (encode_categorical_features (create_xgboost_features (s ! df))
      (Some encoders))"
  have c1: "fst (create_xgboost_features_st df s) = Suc (length s)"
    and c2: "snd (create_xgboost_features_st df s) = s1"
    using create_xgboost_features_st_result(1) [OF assms] create_xgboost_features_st_store [OF assms]
    by (simp_all add: s1_def)
  have l: "Suc (length s) < length s1" and n: "s1 ! Suc (length s) = create_xgboost_features (s ! df)"
    by (simp_all add: s1_def nth_append)
  have e1: "fst (fst (encode_categorical_features_st (Suc (length s)) (Some encoders) s1)) = length s1"
    and e2: "snd (encode_categorical_features_st (Suc (length s)) (Some encoders) s1) = s1 @ [f2]"
    using encode_categorical_features_st_result(1) [OF l, of "Some encoders"]
      encode_categorical_features_st_store [OF l, of "Some encoders"] n
    by (simp_all add: f2_def)
  show ?thesis
    unfolding forecast_step_st_def forecast_step_def Let_def case_prod_beta c1 c2 e1 e2
      f2_def [symmetric]
    by (rule exI [of _ "s1 @ [f2]"]) (simp split: list.splits sum.splits)
qed

lemma forecast_loop_st_result:
  assumes "df < length s"
  shows "fst (forecast_loop_st model create_xgboost_features_st encoders horizon step df forecasts s) =
     forecast_loop model create_xgboost_features encoders horizon step (s ! df) forecasts"
  using assms
proof (induction "horizon - step" arbitrary: step df forecasts s)
  case 0
  then show ?case
    by (simp add: forecast_loop_st.simps [of _ _ _ horizon step]
        forecast_loop.simps [of _ _ _ horizon step])
next
  case (Suc n)
  then have lt: "step < horizon" by simp
  from forecast_step_st_result [OF Suc.prems, of model encoders]
  obtain s' where st: "forecast_step_st model create_xgboost_features_st encoders df s =
     (case forecast_step model create_xgboost_features encoders (s ! df) of
        Inl e \<Rightarrow> (Inl e, s')
      | Inr (frame, pred) \<Rightarrow> (Inr (length s', pred), s' @ [frame]))"
    by blast
  show ?case
  proof (cases "forecast_step model create_xgboost_features encoders (s ! df)")
    case (Inl e)
    with st lt show ?thesis
      by (simp add: forecast_loop_st.simps [of _ _ _ horizon step]
          forecast_loop.simps [of _ _ _ horizon step])
  next
    case (Inr p)
    obtain frame pred where p: "p = (frame, pred)" by (cases p)
    have n: "n = horizon - Suc step"
      using Suc.hyps(2) by simp
    have "fst (forecast_loop_st model create_xgboost_features_st encoders horizon (Suc step)
        (length s') (forecasts @ [pred]) (s' @ [frame])) =
      forecast_loop model create_xgboost_features encoders horizon (Suc step)
        ((s' @ [frame]) ! length s') (forecasts @ [pred])"
      by (rule Suc.hyps(1) [OF n]) simp
    with st lt Inr p show ?thesis
      by (simp add: forecast_loop_st.simps [of _ _ _ horizon step]
          forecast_loop.simps [of _ _ _ horizon step])
  qed
qed

lemma xgboost_recursive_forecast_st_result:
  assumes "product_df < length s"
  shows "Inr (fst (xgboost_recursive_forecast_st model product_df horizon
        create_xgboost_features_st encoders s)) =
     xgboost_recursive_forecast model (s ! product_df) horizon create_xgboost_features encoders"
proof -
  define s1 where "s1 = s @ [log_target_copy (s ! product_df)]"
  have s1: "modify (length s) (\<lambda>df. df\<lparr>y_column := True\<rparr>)
      (set_column (length s) (\<lambda>r v. r\<lparr>y := v\<rparr>) (map (\<lambda>r. log1p (qty_for_forecast r)))
         (s @ [s ! product_df])) = s1"
    by (simp add: set_column_first_new modify_first_new s1_def log_target_copy_def
        data_frame_eq_iff)
  have "fst (forecast_loop_st model create_xgboost_features_st encoders horizon 0 (length s) [] s1) =
      forecast_loop model create_xgboost_features encoders horizon 0 (s1 ! length s) []"
    by (rule forecast_loop_st_result) (simp add: s1_def)
  then show ?thesis
    unfolding xgboost_recursive_forecast_st_def xgboost_recursive_forecast_def Let_def
      case_prod_beta
    using assms by (simp add: nth_append s1 s1_def)
qed

text \<open>
  C10. Run on a store of DataFrame objects, \<open>build_weekly_timeseries\<close>,
  \<open>create_xgboost_features\<close>, \<open>encode_categorical_features\<close>, \<open>train_xgboost_model\<close> and
  \<open>xgboost_recursive_forecast\<close> leave every object that existed before the call as it
  was, the caller's input table among them: each stage writes only to objects it has
  created itself (its copies). So a recursive forecast of one group changes neither the
  shared featured table nor any other table in the store. What each stage returns on
  the store is what the stage computes from its input table.
\<close>

theorem stages_leave_callers_tables_unchanged:
  fixes raw :: "txn list store" and s :: "data_frame store"
  shows "extends raw (snd (build_weekly_timeseries_st df filter_attribute_products raw))
     \<and> extends s (snd (create_xgboost_features_st ts s))
     \<and> extends s (snd (encode_categorical_features_st train_df encoders_arg s))
     \<and> extends s (snd (train_xgboost_model_st fit train_df s))
     \<and> extends s (snd (xgboost_recursive_forecast_st model product_df horizon
            create_xgboost_features_st encoders s))
     \<and> (df < length raw \<longrightarrow>
            snd (build_weekly_timeseries_st df filter_attribute_products raw) ! df = raw ! df)
     \<and> (\<forall>a < length s.
            snd (create_xgboost_features_st ts s) ! a = s ! a
          \<and> snd (encode_categorical_features_st train_df encoders_arg s) ! a = s ! a
          \<and> snd (train_xgboost_model_st fit train_df s) ! a = s ! a
          \<and> snd (xgboost_recursive_forecast_st model product_df horizon
                 create_xgboost_features_st encoders s) ! a = s ! a)
     \<and> (df < length raw \<longrightarrow>
            fst (build_weekly_timeseries_st df filter_attribute_products raw) =
              build_weekly_timeseries (raw ! df) filter_attribute_products)
     \<and> (ts < length s \<longrightarrow>
            snd (create_xgboost_features_st ts s) ! fst (create_xgboost_features_st ts s) =
              create_xgboost_features (s ! ts))
     \<and> (train_df < length s \<longrightarrow>
            snd (encode_categorical_features_st train_df encoders_arg s)
                ! fst (fst (encode_categorical_features_st train_df encoders_arg s)) =
              fst (encode_categorical_features (s ! train_df) encoders_arg)
          \<and> snd (fst (encode_categorical_features_st train_df encoders_arg s)) =
              snd (encode_categorical_features (s ! train_df) encoders_arg)
          \<and> fst (train_xgboost_model_st fit train_df s) =
              train_xgboost_model fit (s ! train_df))
     \<and> (product_df < length s \<longrightarrow>
            Inr (fst (xgboost_recursive_forecast_st model product_df horizon
                   create_xgboost_features_st encoders s)) =
              xgboost_recursive_forecast model (s ! product_df) horizon create_xgboost_features
                encoders)"
proof -
  have b: "extends raw (snd (build_weekly_timeseries_st df filter_attribute_products raw))"
    by (rule build_weekly_timeseries_st_extends)
  have c: "extends s (snd (create_xgboost_features_st ts s))"
    by (rule create_xgboost_features_st_extends)
  have e: "extends s (snd (encode_categorical_features_st train_df encoders_arg s))"
    by (rule encode_categorical_features_st_extends)
  have t: "extends s (snd (train_xgboost_model_st fit train_df s))"
    by (rule train_xgboost_model_st_extends)
  have x: "extends s (snd (xgboost_recursive_forecast_st model product_df horizon
            create_xgboost_features_st encoders s))"
    by (rule xgboost_recursive_forecast_st_extends) (rule create_xgboost_features_st_extends)
  have frame: "extends raw (snd (build_weekly_timeseries_st df filter_attribute_products raw))
     \<and> extends s (snd (create_xgboost_features_st ts s))
     \<and> extends s (snd (encode_categorical_features_st train_df encoders_arg s))
     \<and> extends s (snd (train_xgboost_model_st fit train_df s))
     \<and> extends s (snd (xgboost_recursive_forecast_st model product_df horizon
            create_xgboost_features_st encoders s))
     \<and> (df < length raw \<longrightarrow>
            snd (build_weekly_timeseries_st df filter_attribute_products raw) ! df = raw ! df)
     \<and> (\<forall>a < length s.
            snd (create_xgboost_features_st ts s) ! a = s ! a
          \<and> snd (encode_categorical_features_st train_df encoders_arg s) ! a = s ! a
          \<and> snd (train_xgboost_model_st fit train_df s) ! a = s ! a
          \<and> snd (xgboost_recursive_forecast_st model product_df horizon
                 create_xgboost_features_st encoders s) ! a = s ! a)"
    using b c e t x extends_nth [OF b] extends_nth [OF c] extends_nth [OF e]
      extends_nth [OF t] extends_nth [OF x]
    by blast
  have r1: "df < length raw \<longrightarrow>
            fst (build_weekly_timeseries_st df filter_attribute_products raw) =
              build_weekly_timeseries (raw ! df) filter_attribute_products"
    by (simp add: build_weekly_timeseries_st_result)
  have r2: "ts < length s \<longrightarrow>
            snd (create_xgboost_features_st ts s) ! fst (create_xgboost_features_st ts s) =
              create_xgboost_features (s ! ts)"
    by (simp add: create_xgboost_features_st_result)
  have r3: "train_df < length s \<longrightarrow>
            snd (encode_categorical_features_st train_df encoders_arg s)
                ! fst (fst (encode_categorical_features_st train_df encoders_arg s)) =
              fst (encode_categorical_features (s ! train_df) encoders_arg)
          \<and> snd (fst (encode_categorical_features_st train_df encoders_arg s)) =
              snd (encode_categorical_features (s ! train_df) encoders_arg)
          \<and> fst (train_xgboost_model_st fit train_df s) =
              train_xgboost_model fit (s ! train_df)"
    by (simp add: encode_categorical_features_st_result train_xgboost_model_st_result)
  have r4: "product_df < length s \<longrightarrow>
            Inr (fst (xgboost_recursive_forecast_st model product_df horizon
                   create_xgboost_features_st encoders s)) =
              xgboost_recursive_forecast model (s ! product_df) horizon create_xgboost_features
                encoders"
    by (simp add: xgboost_recursive_forecast_st_result)
  from frame r1 r2 r3 r4 show ?thesis
    by blast
qed

theorem stages_leave_callers_tables_unchanged_witness:
  "0 < length [two_sided_rows]
   \<and> snd (build_weekly_timeseries_st 0 True [two_sided_rows]) ! 0 = two_sided_rows
   \<and> snd (create_xgboost_features_st 1 [single_row_frame, long_history_frame]) ! 1 =
        long_history_frame
   \<and> snd (train_xgboost_model_st (constant_fit failing_model) 1
        [single_row_frame, long_history_frame]) ! 1 = long_history_frame
   \<and> snd (xgboost_recursive_forecast_st first_step_only_model 0 4 create_xgboost_features_st
        no_encoders [single_row_frame, long_history_frame]) ! 0 = single_row_frame
   \<and> snd (xgboost_recursive_forecast_st first_step_only_model 0 4 create_xgboost_features_st
        no_encoders [single_row_frame, long_history_frame]) ! 1 = long_history_frame"
proof -
  note a = stages_leave_callers_tables_unchanged [of "[two_sided_rows]" 0 True
      "[single_row_frame, long_history_frame]" 1 1 None "constant_fit failing_model"
      first_step_only_model 0 4 no_encoders]
  have l0: "0 < length [single_row_frame, long_history_frame]"
    and l1: "1 < length [single_row_frame, long_history_frame]"
    by simp_all
  from a have r: "snd (build_weekly_timeseries_st 0 True [two_sided_rows]) ! 0 = two_sided_rows"
    by simp
  from a have all: "\<forall>a < length [single_row_frame, long_history_frame].
            snd (create_xgboost_features_st 1 [single_row_frame, long_history_frame]) ! a =
              [single_row_frame, long_history_frame] ! a
          \<and> snd (train_xgboost_model_st (constant_fit failing_model) 1
                 [single_row_frame, long_history_frame]) ! a =
              [single_row_frame, long_history_frame] ! a
          \<and> snd (xgboost_recursive_forecast_st first_step_only_model 0 4
                 create_xgboost_features_st no_encoders
                 [single_row_frame, long_history_frame]) ! a =
              [single_row_frame, long_history_frame] ! a"
    by blast
  from all l1 have
    "snd (create_xgboost_features_st 1 [single_row_frame, long_history_frame]) ! 1 =
       [single_row_frame, long_history_frame] ! 1"
    "snd (train_xgboost_model_st (constant_fit failing_model) 1
        [single_row_frame, long_history_frame]) ! 1 = [single_row_frame, long_history_frame] ! 1"
    "snd (xgboost_recursive_forecast_st first_step_only_model 0 4 create_xgboost_features_st
        no_encoders [single_row_frame, long_history_frame]) ! 1 =
       [single_row_frame, long_history_frame] ! 1"
    by blast+
  moreover from all l0 have
    "snd (xgboost_recursive_forecast_st first_step_only_model 0 4 create_xgboost_features_st
        no_encoders [single_row_frame, long_history_frame]) ! 0 =
       [single_row_frame, long_history_frame] ! 0"
    by blast
  ultimately show ?thesis
    using r by simp
qed

end
